theory Spec2Isabelle
  imports Complex_Main
begin

section \<open>Host arrays (the \<open>mxArray\<close> interface of \<open>mex.h\<close>)\<close>

text \<open>
  \<open>matcaffe.cpp\<close> exchanges values of the host's array type with the engine. A host
  array has a dimension vector and, depending on its class, a flat buffer of
  single-precision floats, a flat buffer of doubles, characters, cells (pointers to
  further arrays, \<open>NULL\<close> when unset) or struct entries (one slot per field, \<open>NULL\<close>
  when unset). The wrapper only copies floats, so the float type is the parameter
  \<open>'a\<close>; doubles are modelled by the rationals they denote.
\<close>

datatype 'a mxArray =
    MxSingle "nat list" "'a list"
  | MxDouble "nat list" "rat list"
  | MxChar string
  | MxCell "nat list" "'a mxArray option list"
  | MxStruct "nat list" "string list" "'a mxArray option list list"

fun mxGetDimensions :: "'a mxArray \<Rightarrow> nat list" where
  "mxGetDimensions (MxSingle ds xs) = ds"
| "mxGetDimensions (MxDouble ds xs) = ds"
| "mxGetDimensions (MxChar s) = [1, length s]"
| "mxGetDimensions (MxCell ds cs) = ds"
| "mxGetDimensions (MxStruct ds fs es) = ds"

text \<open>\<open>mxGetDimensions(a)[k]\<close>: reading behind the end of the dimension vector is
  not defined by the source, hence \<open>None\<close>.\<close>

definition dim_at :: "'a mxArray \<Rightarrow> nat \<Rightarrow> nat option" where
  "dim_at a k = (if k < length (mxGetDimensions a) then Some (mxGetDimensions a ! k) else None)"

definition mxGetNumberOfElements :: "'a mxArray \<Rightarrow> nat" where
  "mxGetNumberOfElements a = prod_list (mxGetDimensions a)"

fun mxIsSingle :: "'a mxArray \<Rightarrow> bool" where
  "mxIsSingle (MxSingle ds xs) = True"
| "mxIsSingle a = False"

text \<open>\<open>mxGetCell\<close> returns \<open>NULL\<close> for an unset cell; every use of the result in
  the source dereferences it, so \<open>NULL\<close>, an index out of range and a non-cell
  argument are all \<open>None\<close> here.\<close>

fun mxGetCell :: "'a mxArray \<Rightarrow> nat \<Rightarrow> 'a mxArray option" where
  "mxGetCell (MxCell ds cs) i = (if i < length cs then cs ! i else None)"
| "mxGetCell a i = None"

fun mxSetCell :: "'a mxArray \<Rightarrow> nat \<Rightarrow> 'a mxArray \<Rightarrow> 'a mxArray option" where
  "mxSetCell (MxCell ds cs) i v = (if i < length cs then Some (MxCell ds (cs[i := Some v])) else None)"
| "mxSetCell a i v = None"

fun mxArrayToString :: "'a mxArray \<Rightarrow> string option" where
  "mxArrayToString (MxChar s) = Some s"
| "mxArrayToString a = None"

text \<open>\<open>reinterpret_cast<float*>(mxGetPr(a))\<close>: the float buffer of a single-precision
  array; for every other class the floats read through the pointer are not
  determined by the source.\<close>

fun mxGetPr_float :: "'a mxArray \<Rightarrow> 'a list option" where
  "mxGetPr_float (MxSingle ds xs) = Some xs"
| "mxGetPr_float a = None"

fun mxGetPr_double :: "'a mxArray \<Rightarrow> rat list option" where
  "mxGetPr_double (MxDouble ds xs) = Some xs"
| "mxGetPr_double a = None"

definition mxCreateNumericArray :: "nat list \<Rightarrow> ('a::zero) mxArray" where
  "mxCreateNumericArray dims = MxSingle dims (replicate (prod_list dims) 0)"

definition mxCreateCellMatrix :: "nat \<Rightarrow> nat \<Rightarrow> 'a mxArray" where
  "mxCreateCellMatrix m n = MxCell [m, n] (replicate (m * n) None)"

definition mxCreateCellArray :: "nat list \<Rightarrow> 'a mxArray" where
  "mxCreateCellArray dims = MxCell dims (replicate (prod_list dims) None)"

definition mxCreateDoubleScalar :: "rat \<Rightarrow> 'a mxArray" where
  "mxCreateDoubleScalar v = MxDouble [1, 1] [v]"

definition mxCreateString :: "string \<Rightarrow> 'a mxArray" where
  "mxCreateString s = MxChar s"

definition mxCreateStructArray :: "nat list \<Rightarrow> string list \<Rightarrow> 'a mxArray" where
  "mxCreateStructArray dims fnames =
     MxStruct dims fnames (replicate (prod_list dims) (replicate (length fnames) None))"

fun field_number :: "string list \<Rightarrow> string \<Rightarrow> nat option" where
  "field_number [] f = None"
| "field_number (g # gs) f = (if g = f then Some 0 else map_option Suc (field_number gs f))"

fun mxSetField :: "'a mxArray \<Rightarrow> nat \<Rightarrow> string \<Rightarrow> 'a mxArray \<Rightarrow> 'a mxArray option" where
  "mxSetField (MxStruct ds fs es) i f v =
     (case field_number fs f of
        None \<Rightarrow> None
      | Some k \<Rightarrow>
          if i < length es \<and> k < length (es ! i)
          then Some (MxStruct ds fs (es[i := (es ! i)[k := Some v]]))
          else None)"
| "mxSetField a i f v = None"

text \<open>\<open>mxGetScalar\<close>: the first element of a numeric array, as a double.\<close>

fun mxGetScalar :: "'a mxArray \<Rightarrow> rat option" where
  "mxGetScalar (MxDouble ds (x # xs)) = Some x"
| "mxGetScalar a = None"

section \<open>Outcomes\<close>

text \<open>
  A call leaves the wrapper in one of four ways: it returns; it calls \<open>mexErrMsgTxt\<close>,
  which hands the message to the host and does not return to the caller (the state
  reached so far survives); a \<open>CHECK\<close> or \<open>LOG(FATAL)\<close> terminates the process; or
  the source does something C++ leaves undefined (a null or out-of-range access).
\<close>

datatype 's failure = MexErr string 's | Fatal string | Undefined

section \<open>The engine\<close>

text \<open>
  The engine (\<open>caffe/caffe.hpp\<close>) is not part of the wrapper. A blob shows the wrapper
  its four extents, its element count and two buffers; a net shows its blob store,
  its layers and the pointer vectors \<open>input_blobs()\<close>, \<open>output_blobs()\<close>,
  \<open>top_vecs()\<close>, modelled as indices into the blob store.
\<close>

record 'a Blob =
  num :: nat
  channels :: nat
  height :: nat
  width :: nat
  count :: nat
  data :: "'a list"
  diff :: "'a list"

record 'a Layer =
  layer_blobs :: "'a Blob list"

record 'a Net =
  blobs :: "'a Blob list"
  blob_names :: "string list"
  input_blobs :: "nat list"
  output_blobs :: "nat list"
  top_vecs :: "nat list list"
  layers :: "'a Layer list"
  layer_names :: "string list"

datatype Brew = CPU | GPU

datatype Phase = TRAIN | TEST

text \<open>The engine's process-wide settings (\<open>Caffe::set_mode\<close>, \<open>Caffe::set_phase\<close>,
  \<open>Caffe::SetDevice\<close>).\<close>

record Caffe =
  mode :: Brew
  phase :: Phase
  device :: int

text \<open>
  The engine's operations are parameters of the model. \<open>None\<close> is a call that does
  not return (the engine's own \<open>CHECK\<close>s). \<open>CalcGradientsPrefilled\<close> and
  \<open>GetFeaturesPrefilled\<close> return their status code and the vector of blob pointers
  they filled (\<open>None\<close> is a null pointer). \<open>random\<close> is the stream of values of
  libc's \<open>random()\<close>.
\<close>

record 'a engine =
  Net_new :: "Caffe \<Rightarrow> string \<Rightarrow> 'a Net option"
  CopyTrainedLayersFrom :: "Caffe \<Rightarrow> 'a Net \<Rightarrow> string \<Rightarrow> 'a Net option"
  ForwardPrefilled :: "Caffe \<Rightarrow> 'a Net \<Rightarrow> 'a Net option"
  Backward :: "Caffe \<Rightarrow> 'a Net \<Rightarrow> 'a Net option"
  CalcGradientsPrefilled ::
    "Caffe \<Rightarrow> 'a Net \<Rightarrow> string \<Rightarrow> int list \<Rightarrow> ('a Net \<times> int \<times> 'a Blob option list) option"
  GetFeaturesPrefilled ::
    "Caffe \<Rightarrow> 'a Net \<Rightarrow> string \<Rightarrow> ('a Net \<times> int \<times> 'a Blob option list) option"
  ReadProtoFromBinaryFile :: "string \<Rightarrow> 'a Blob option"
  random :: "nat \<Rightarrow> int"

definition blob_at :: "'a Net \<Rightarrow> nat \<Rightarrow> 'a Blob option" where
  "blob_at n p = (if p < length (blobs n) then Some (blobs n ! p) else None)"

definition blob_put :: "'a Net \<Rightarrow> nat \<Rightarrow> 'a Blob \<Rightarrow> 'a Net" where
  "blob_put n p b = n\<lparr>blobs := (blobs n)[p := b]\<rparr>"

text \<open>The \<open>switch (Caffe::mode())\<close> of every copy: the CPU and the GPU pointer of a
  blob buffer show the same elements.\<close>

definition cpu_data :: "'a Blob \<Rightarrow> 'a list" where "cpu_data b = data b"
definition gpu_data :: "'a Blob \<Rightarrow> 'a list" where "gpu_data b = data b"
definition cpu_diff :: "'a Blob \<Rightarrow> 'a list" where "cpu_diff b = diff b"
definition gpu_diff :: "'a Blob \<Rightarrow> 'a list" where "gpu_diff b = diff b"

definition mode_data :: "Brew \<Rightarrow> 'a Blob \<Rightarrow> 'a list" where
  "mode_data m b = (case m of CPU \<Rightarrow> cpu_data b | GPU \<Rightarrow> gpu_data b)"

definition mode_diff :: "Brew \<Rightarrow> 'a Blob \<Rightarrow> 'a list" where
  "mode_diff m b = (case m of CPU \<Rightarrow> cpu_diff b | GPU \<Rightarrow> gpu_diff b)"

text \<open>\<open>caffe_copy(n, src, dst)\<close> overwrites the first \<open>n\<close> elements of \<open>dst\<close> with
  the first \<open>n\<close> of \<open>src\<close>; it is undefined when either buffer is shorter.\<close>

definition caffe_copy :: "nat \<Rightarrow> 'a list \<Rightarrow> 'a list \<Rightarrow> 'a list option" where
  "caffe_copy n src dst =
     (if n \<le> length src \<and> n \<le> length dst then Some (take n src @ drop n dst) else None)"

text \<open>\<open>static_cast<unsigned int>\<close> of an \<open>mwSize\<close>.\<close>

definition unsigned_int :: "nat \<Rightarrow> nat" where
  "unsigned_int x = x mod 2 ^ 32"

section \<open>The wrapper's state\<close>

text \<open>
  \<open>net\<close> and \<open>init_key\<close> are the two statics of \<open>matcaffe.cpp\<close> (\<open>net_\<close> and
  \<open>init_key\<close>). The other fields are the state outside the file that its commands
  act on: the engine's settings, the position in the \<open>random()\<close> stream, and the
  blobs on which the wrapper has run a \<open>delete\<close> expression.
\<close>

record 'a world =
  net :: "'a Net option"
  init_key :: int
  caffe :: Caffe
  rand_calls :: nat
  deleted :: "'a Blob list"

definition initial_world :: "Caffe \<Rightarrow> 'a world" where
  "initial_world c = \<lparr>net = None, init_key = - 2, caffe = c, rand_calls = 0, deleted = []\<rparr>"

section \<open>Copy loops shared by the commands\<close>

text \<open>The output loop of \<open>do_forward\<close>, \<open>do_backward\<close> and \<open>do_get_features\<close>:
  for every blob, a numeric array of dimensions \<open>[width, height, channels, num]\<close>
  is created, put into cell \<open>i\<close> and filled with \<open>count\<close> elements of the
  buffer \<open>src\<close> selects.\<close>

fun blobs_to_cells ::
  "('a Blob \<Rightarrow> 'a list) \<Rightarrow> nat \<Rightarrow> 'a Blob option list \<Rightarrow> ('a::zero) mxArray \<Rightarrow> 's failure + 'a mxArray"
where
  "blobs_to_cells src i [] mx_out = Inr mx_out"
| "blobs_to_cells src i (ob # obs) mx_out =
     (case ob of
        None \<Rightarrow> Inl Undefined
      | Some b \<Rightarrow>
          (let dims = [width b, height b, channels b, num b] in
           case mxSetCell mx_out i (mxCreateNumericArray dims) of
             None \<Rightarrow> Inl Undefined
           | Some mx_out1 \<Rightarrow>
               (case caffe_copy (count b) (src b) (replicate (prod_list dims) 0) of
                  None \<Rightarrow> Inl Undefined
                | Some xs \<Rightarrow>
                    (case mxSetCell mx_out1 i (MxSingle dims xs) of
                       None \<Rightarrow> Inl Undefined
                     | Some mx_out2 \<Rightarrow> blobs_to_cells src (Suc i) obs mx_out2))))"

section \<open>\<open>do_forward\<close>\<close>

fun forward_inputs ::
  "Brew \<Rightarrow> 'a mxArray \<Rightarrow> nat \<Rightarrow> nat list \<Rightarrow> 'a Net \<Rightarrow> 's failure + 'a Net"
where
  "forward_inputs m bottom i [] n = Inr n"
| "forward_inputs m bottom i (p # ps) n =
     (case mxGetCell bottom i of
        None \<Rightarrow> Inl Undefined
      | Some elem \<Rightarrow>
          if \<not> mxIsSingle elem
          then Inl (Fatal ''MatCaffe require single-precision float point data'')
          else
            (case blob_at n p of
               None \<Rightarrow> Inl Undefined
             | Some b \<Rightarrow>
                 if mxGetNumberOfElements elem \<noteq> count b
                 then Inl (Fatal ''MatCaffe input size does not match the input size of the network'')
                 else
                   (case mxGetPr_float elem of
                      None \<Rightarrow> Inl Undefined
                    | Some data_ptr \<Rightarrow>
                        (case caffe_copy (count b) data_ptr (mode_data m b) of
                           None \<Rightarrow> Inl Undefined
                         | Some xs \<Rightarrow>
                             forward_inputs m bottom (Suc i) ps (blob_put n p (b\<lparr>data := xs\<rparr>))))))"

definition do_forward :: "'a engine \<Rightarrow> 'a world \<Rightarrow> ('a::zero) mxArray \<Rightarrow> 'a world failure + ('a mxArray \<times> 'a world)"
where
  "do_forward E w bottom =
     (case net w of
        None \<Rightarrow> Inl Undefined
      | Some n \<Rightarrow>
          (case dim_at bottom 0 of
             None \<Rightarrow> Inl Undefined
           | Some d0 \<Rightarrow>
               if unsigned_int d0 \<noteq> length (input_blobs n)
               then Inl (Fatal ''Check failed: mxGetDimensions(bottom)[0] == input_blobs.size()'')
               else
                 (case forward_inputs (mode (caffe w)) bottom 0 (input_blobs n) n of
                    Inl e \<Rightarrow> Inl e
                  | Inr n1 \<Rightarrow>
                      (case ForwardPrefilled E (caffe w) n1 of
                         None \<Rightarrow> Inl (Fatal ''ForwardPrefilled'')
                       | Some n2 \<Rightarrow>
                           (case blobs_to_cells (mode_data (mode (caffe w))) 0
                                   (map (blob_at n2) (output_blobs n2))
                                   (mxCreateCellMatrix (length (output_blobs n2)) 1) of
                              Inl e \<Rightarrow> Inl e
                            | Inr mx_out \<Rightarrow> Inr (mx_out, w\<lparr>net := Some n2\<rparr>))))))"

section \<open>\<open>do_backward\<close>\<close>

fun backward_diffs ::
  "Brew \<Rightarrow> 'a mxArray \<Rightarrow> nat \<Rightarrow> nat list \<Rightarrow> 'a Net \<Rightarrow> 's failure + 'a Net"
where
  "backward_diffs m top_diff i [] n = Inr n"
| "backward_diffs m top_diff i (p # ps) n =
     (case mxGetCell top_diff i of
        None \<Rightarrow> Inl Undefined
      | Some elem \<Rightarrow>
          (case mxGetPr_float elem of
             None \<Rightarrow> Inl Undefined
           | Some data_ptr \<Rightarrow>
               (case blob_at n p of
                  None \<Rightarrow> Inl Undefined
                | Some b \<Rightarrow>
                    (case caffe_copy (count b) data_ptr (mode_diff m b) of
                       None \<Rightarrow> Inl Undefined
                     | Some xs \<Rightarrow>
                         backward_diffs m top_diff (Suc i) ps (blob_put n p (b\<lparr>diff := xs\<rparr>))))))"

definition do_backward :: "'a engine \<Rightarrow> 'a world \<Rightarrow> ('a::zero) mxArray \<Rightarrow> 'a world failure + ('a mxArray \<times> 'a world)"
where
  "do_backward E w top_diff =
     (case net w of
        None \<Rightarrow> Inl Undefined
      | Some n \<Rightarrow>
          (case dim_at top_diff 0 of
             None \<Rightarrow> Inl Undefined
           | Some d0 \<Rightarrow>
               if unsigned_int d0 \<noteq> length (output_blobs n)
               then Inl (Fatal ''Check failed: mxGetDimensions(top_diff)[0] == output_blobs.size()'')
               else
                 (case backward_diffs (mode (caffe w)) top_diff 0 (output_blobs n) n of
                    Inl e \<Rightarrow> Inl e
                  | Inr n1 \<Rightarrow>
                      (case Backward E (caffe w) n1 of
                         None \<Rightarrow> Inl (Fatal ''Backward'')
                       | Some n2 \<Rightarrow>
                           (case blobs_to_cells (mode_diff (mode (caffe w))) 0
                                   (map (blob_at n2) (input_blobs n2))
                                   (mxCreateCellMatrix (length (input_blobs n2)) 1) of
                              Inl e \<Rightarrow> Inl e
                            | Inr mx_out \<Rightarrow> Inr (mx_out, w\<lparr>net := Some n2\<rparr>))))))"

section \<open>\<open>do_get_gradients\<close> and \<open>do_get_features\<close>\<close>

text \<open>The cast \<open>(int) x\<close> of a double truncates towards zero. (C++ defines it only
  when the truncated value fits an \<open>int\<close>; the model does not limit it.)\<close>

definition int_of_double :: "rat \<Rightarrow> int" where
  "int_of_double x = (if 0 \<le> x then \<lfloor>x\<rfloor> else \<lceil>x\<rceil>)"

text \<open>The loop that converts the channel ids, over the indices
  \<open>0 ..< dims[0] * dims[1]\<close> of \<open>channel_ids\<close>.\<close>

fun channels_loop ::
  "'s \<Rightarrow> rat list option \<Rightarrow> nat list \<Rightarrow> int list \<Rightarrow> 's failure + int list"
where
  "channels_loop s selected_channels [] selected_channels_i = Inr selected_channels_i"
| "channels_loop s selected_channels (i # is) selected_channels_i =
     (case selected_channels of
        None \<Rightarrow> Inl Undefined
      | Some ds \<Rightarrow>
          if length ds \<le> i then Inl Undefined
          else if ds ! i < 0 then Inl (MexErr ''The channel ids must be greater than zero!'' s)
          else channels_loop s selected_channels is
                 (selected_channels_i @ [int_of_double (ds ! i + 1 / 2)]))"

text \<open>The input loop of \<open>do_get_gradients\<close> and \<open>do_get_features\<close> (the same text in
  both): the first four extents of every cell are compared with the input blob, then
  the cell's floats are copied into the blob.\<close>

fun checked_inputs ::
  "Brew \<Rightarrow> 'a mxArray \<Rightarrow> nat \<Rightarrow> nat list \<Rightarrow> 'a Net \<Rightarrow> 'a Net failure + 'a Net"
where
  "checked_inputs m bottom i [] n = Inr n"
| "checked_inputs m bottom i (p # ps) n =
     (case mxGetCell bottom i of
        None \<Rightarrow> Inl Undefined
      | Some elem \<Rightarrow>
          (case blob_at n p of
             None \<Rightarrow> Inl Undefined
           | Some b \<Rightarrow>
               (case dim_at elem 0 of
                  None \<Rightarrow> Inl Undefined
                | Some d0 \<Rightarrow>
                    if d0 \<noteq> width b
                    then Inl (MexErr ''The height of the input images is wrong!'' n)
                    else
                      (case dim_at elem 1 of
                         None \<Rightarrow> Inl Undefined
                       | Some d1 \<Rightarrow>
                           if d1 \<noteq> height b
                           then Inl (MexErr ''The width of the input images is wrong!'' n)
                           else
                             (case dim_at elem 2 of
                                None \<Rightarrow> Inl Undefined
                              | Some d2 \<Rightarrow>
                                  if d2 \<noteq> channels b
                                  then Inl (MexErr ''The channel size of the input images is wrong!'' n)
                                  else
                                    (case dim_at elem 3 of
                                       None \<Rightarrow> Inl Undefined
                                     | Some d3 \<Rightarrow>
                                         if d3 \<noteq> num b
                                         then Inl (MexErr ''The batch size of the input images is wrong!'' n)
                                         else
                                           (case mxGetPr_float elem of
                                              None \<Rightarrow> Inl Undefined
                                            | Some data_ptr \<Rightarrow>
                                                (case caffe_copy (count b) data_ptr (mode_data m b) of
                                                   None \<Rightarrow> Inl Undefined
                                                 | Some xs \<Rightarrow>
                                                     checked_inputs m bottom (Suc i) ps
                                                       (blob_put n p (b\<lparr>data := xs\<rparr>))))))))))"

fun with_net :: "'a world \<Rightarrow> 'a Net failure \<Rightarrow> 'a world failure" where
  "with_net w (MexErr msg n) = MexErr msg (w\<lparr>net := Some n\<rparr>)"
| "with_net w (Fatal msg) = Fatal msg"
| "with_net w Undefined = Undefined"

text \<open>The loop over the per-batch blobs. \<open>out\<close> is \<open>mx_out\<close> once it exists: its
  dimensions, the part of its buffer before \<open>data_ptr\<close> and the part from
  \<open>data_ptr\<close> on.\<close>

fun gradients_loop ::
  "Brew \<Rightarrow> int \<Rightarrow> int \<Rightarrow> nat \<Rightarrow> 'a Blob option list \<Rightarrow> int \<Rightarrow> int \<Rightarrow>
   (nat list \<times> 'a list \<times> 'a list) option \<Rightarrow>
   's failure + (int \<times> (nat list \<times> ('a::zero) list \<times> 'a list) option)"
where
  "gradients_loop m batch_size k i [] channels_left data_copied out = Inr (data_copied, out)"
| "gradients_loop m batch_size k i (ob # obs) channels_left data_copied out =
     (case ob of
        None \<Rightarrow> Inl Undefined
      | Some b \<Rightarrow>
          (case (if i = 0
                 then Some ([width b, height b, channels b, nat k], [],
                            replicate (prod_list [width b, height b, channels b, nat k]) 0)
                 else out) of
             None \<Rightarrow> Inl Undefined
           | Some (dims, written, data_ptr) \<Rightarrow>
               (let num_to_copy =
                      min (int (count b)) (int (width b) * int (height b) * int (channels b) * channels_left)
                in if num_to_copy < 0 then Inl Undefined
                   else
                     (case caffe_copy (nat num_to_copy) (mode_diff m b) data_ptr of
                        None \<Rightarrow> Inl Undefined
                      | Some xs \<Rightarrow>
                          gradients_loop m batch_size k (Suc i) obs
                            (max 0 (channels_left - batch_size)) (data_copied + num_to_copy)
                            (Some (dims, written @ take (nat num_to_copy) xs,
                                   drop (nat num_to_copy) xs))))))"

text \<open>\<open>net_->top_vecs()[0][0]->num()\<close>.\<close>

definition batch_size_of :: "'a Net \<Rightarrow> int option" where
  "batch_size_of n =
     (case top_vecs n of
        [] \<Rightarrow> None
      | tv # tvs \<Rightarrow>
          (case tv of
             [] \<Rightarrow> None
           | p # ps \<Rightarrow> map_option (\<lambda>b. int (num b)) (blob_at n p)))"

definition do_get_gradients ::
  "'a engine \<Rightarrow> 'a world \<Rightarrow> ('a::zero) mxArray \<Rightarrow> 'a mxArray \<Rightarrow> 'a mxArray \<Rightarrow>
   'a world failure + ('a mxArray \<times> 'a world)"
where
  "do_get_gradients E w bottom layername channel_ids =
     (case net w of
        None \<Rightarrow> Inl (MexErr ''Initialize caffe first by calling matcaffe_init.'' w)
      | Some n \<Rightarrow>
          (case (dim_at channel_ids 0, dim_at channel_ids 1) of
             (Some c0, Some c1) \<Rightarrow>
               (case channels_loop w (mxGetPr_double channel_ids) [0 ..< c0 * c1] [] of
                  Inl e \<Rightarrow> Inl e
                | Inr selected_channels_i \<Rightarrow>
                    if length selected_channels_i < 1
                    then Inl (MexErr ''Channel list must not be empty.'' w)
                    else
                      (case dim_at bottom 0 of
                         None \<Rightarrow> Inl Undefined
                       | Some d0 \<Rightarrow>
                           if unsigned_int d0 \<noteq> length (input_blobs n)
                           then Inl (MexErr ''The input has to be a cell array usually containing a single height x width x channels x batch size image!'' w)
                           else
                             (case checked_inputs (mode (caffe w)) bottom 0 (input_blobs n) n of
                                Inl e \<Rightarrow> Inl (with_net w e)
                              | Inr n1 \<Rightarrow>
                                  (case (batch_size_of n1, mxArrayToString layername) of
                                     (Some batch_size, Some layer_name) \<Rightarrow>
                                       (case CalcGradientsPrefilled E (caffe w) n1 layer_name selected_channels_i of
                                          None \<Rightarrow> Inl (Fatal ''CalcGradientsPrefilled'')
                                        | Some (n2, rc, grad_blobs) \<Rightarrow>
                                            if rc \<noteq> 0
                                            then Inl (MexErr ''Error while calculating. Probably a layer with that name does not exist.''
                                                        (w\<lparr>net := Some n2\<rparr>))
                                            else
                                              (case gradients_loop (mode (caffe w)) batch_size
                                                      (int (length selected_channels_i)) 0 grad_blobs
                                                      (int (length selected_channels_i)) 0 None of
                                                 Inl e \<Rightarrow> Inl e
                                               | Inr (data_copied, out) \<Rightarrow>
                                                   (case (grad_blobs, out) of
                                                      (Some b0 # obs, Some (dims, written, data_ptr)) \<Rightarrow>
                                                        if data_copied \<noteq>
                                                           int (width b0 * height b0 * channels b0 * length selected_channels_i)
                                                        then Inl (Fatal ''Check failed: data_copied == width * height * channels * selected_channels_i.size()'')
                                                        else Inr (MxSingle dims (written @ data_ptr),
                                                                  w\<lparr>net := Some n2,
                                                                    deleted := deleted w @ List.map_filter id grad_blobs\<rparr>)
                                                    | _ \<Rightarrow> Inl Undefined)))
                                   | _ \<Rightarrow> Inl Undefined))))
           | _ \<Rightarrow> Inl Undefined))"

definition do_get_features ::
  "'a engine \<Rightarrow> 'a world \<Rightarrow> ('a::zero) mxArray \<Rightarrow> 'a mxArray \<Rightarrow>
   'a world failure + ('a mxArray \<times> 'a world)"
where
  "do_get_features E w bottom layername =
     (case net w of
        None \<Rightarrow> Inl (MexErr ''Initialize caffe first by calling matcaffe_init.'' w)
      | Some n \<Rightarrow>
          (case dim_at bottom 0 of
             None \<Rightarrow> Inl Undefined
           | Some d0 \<Rightarrow>
               if unsigned_int d0 \<noteq> length (input_blobs n)
               then Inl (MexErr ''The input has to be a cell array usually containing a single height x width x channels x batch size image!'' w)
               else
                 (case checked_inputs (mode (caffe w)) bottom 0 (input_blobs n) n of
                    Inl e \<Rightarrow> Inl (with_net w e)
                  | Inr n1 \<Rightarrow>
                      (case mxArrayToString layername of
                         None \<Rightarrow> Inl Undefined
                       | Some layer_name \<Rightarrow>
                           (case GetFeaturesPrefilled E (caffe w) n1 layer_name of
                              None \<Rightarrow> Inl (Fatal ''GetFeaturesPrefilled'')
                            | Some (n2, rc, feat_blobs) \<Rightarrow>
                                if rc \<noteq> 0
                                then Inl (MexErr ''Error while calculating. Probably a layer with that name does not exist.''
                                            (w\<lparr>net := Some n2\<rparr>))
                                else
                                  (case blobs_to_cells (mode_data (mode (caffe w))) 0 feat_blobs
                                          (mxCreateCellMatrix (length feat_blobs) 1) of
                                     Inl e \<Rightarrow> Inl e
                                   | Inr mx_out \<Rightarrow> Inr (mx_out, w\<lparr>net := Some n2\<rparr>)))))))"

section \<open>\<open>do_get_blobs\<close> and \<open>do_get_weights\<close>\<close>

fun blobs_loop ::
  "Brew \<Rightarrow> 'a Blob list \<Rightarrow> string list \<Rightarrow> nat \<Rightarrow> nat \<Rightarrow> ('a::zero) mxArray \<Rightarrow> 's failure + 'a mxArray"
where
  "blobs_loop m bl [] i mx_layer_index mx_layers = Inr mx_layers"
| "blobs_loop m bl (name # names) i mx_layer_index mx_layers =
     (if length bl \<le> i then Inl Undefined
      else
        (let b = bl ! i; dims = [width b, height b, channels b, num b] in
         case caffe_copy (count b) (mode_data m b) (replicate (prod_list dims) 0) of
           None \<Rightarrow> Inl Undefined
         | Some xs \<Rightarrow>
             (case caffe_copy (count b) (mode_diff m b) (replicate (prod_list dims) 0) of
                None \<Rightarrow> Inl Undefined
              | Some ys \<Rightarrow>
                  (case mxSetField mx_layers mx_layer_index ''data'' (MxSingle dims xs) of
                     None \<Rightarrow> Inl Undefined
                   | Some l1 \<Rightarrow>
                       (case mxSetField l1 mx_layer_index ''diff'' (MxSingle dims ys) of
                          None \<Rightarrow> Inl Undefined
                        | Some l2 \<Rightarrow>
                            (case mxSetField l2 mx_layer_index ''blob_names'' (mxCreateString name) of
                               None \<Rightarrow> Inl Undefined
                             | Some l3 \<Rightarrow>
                                 blobs_loop m bl names (Suc i) (Suc mx_layer_index) l3))))))"

definition do_get_blobs :: "'a world \<Rightarrow> 'a world failure + ('a::zero) mxArray" where
  "do_get_blobs w =
     (case net w of
        None \<Rightarrow> Inl Undefined
      | Some n \<Rightarrow>
          blobs_loop (mode (caffe w)) (blobs n) (blob_names n) 0 0
            (mxCreateStructArray [length (blob_names n), 1] [''diff'', ''data'', ''blob_names'']))"

text \<open>Step 1 of \<open>do_get_weights\<close>: the number of layers with weights. A layer without
  blobs is skipped by \<open>continue\<close> and leaves \<open>prev_layer_name\<close> as it is.\<close>

fun count_layers :: "string list \<Rightarrow> nat \<Rightarrow> 'a Layer list \<Rightarrow> string \<Rightarrow> nat \<Rightarrow> nat option" where
  "count_layers names i [] prev_layer_name num_layers = Some num_layers"
| "count_layers names i (l # ls) prev_layer_name num_layers =
     (if length (layer_blobs l) = 0 then count_layers names (Suc i) ls prev_layer_name num_layers
      else if length names \<le> i then None
      else if names ! i \<noteq> prev_layer_name
      then count_layers names (Suc i) ls (names ! i) (Suc num_layers)
      else count_layers names (Suc i) ls prev_layer_name num_layers)"

text \<open>Step 3: the weights are copied. \<open>mx_layer_cells\<close> is declared inside the loop
  body and starts as \<open>NULL\<close> in every iteration; it is only assigned when the layer's
  name differs from \<open>prev_layer_name\<close>. In the other case the inner loop, which runs
  at least once, hands the null pointer to \<open>mxSetCell\<close>.\<close>

fun weights_loop ::
  "Brew \<Rightarrow> string list \<Rightarrow> nat \<Rightarrow> 'a Layer list \<Rightarrow> string \<Rightarrow> nat \<Rightarrow> ('a::zero) mxArray \<Rightarrow>
   's failure + 'a mxArray"
where
  "weights_loop m names i [] prev_layer_name mx_layer_index mx_layers = Inr mx_layers"
| "weights_loop m names i (l # ls) prev_layer_name mx_layer_index mx_layers =
     (if length (layer_blobs l) = 0
      then weights_loop m names (Suc i) ls prev_layer_name mx_layer_index mx_layers
      else if length names \<le> i then Inl Undefined
      else if names ! i \<noteq> prev_layer_name
      then
        (case blobs_to_cells (mode_data m) 0 (map Some (layer_blobs l))
                (mxCreateCellArray [length (layer_blobs l), 1]) of
           Inl e \<Rightarrow> Inl e
         | Inr mx_layer_cells \<Rightarrow>
             (case mxSetField mx_layers mx_layer_index ''weights'' mx_layer_cells of
                None \<Rightarrow> Inl Undefined
              | Some l1 \<Rightarrow>
                  (case mxSetField l1 mx_layer_index ''layer_names'' (mxCreateString (names ! i)) of
                     None \<Rightarrow> Inl Undefined
                   | Some l2 \<Rightarrow>
                       weights_loop m names (Suc i) ls (names ! i) (Suc mx_layer_index) l2)))
      else Inl Undefined)"

definition do_get_weights :: "'a world \<Rightarrow> 'a world failure + ('a::zero) mxArray" where
  "do_get_weights w =
     (case net w of
        None \<Rightarrow> Inl Undefined
      | Some n \<Rightarrow>
          (case count_layers (layer_names n) 0 (layers n) [] 0 of
             None \<Rightarrow> Inl Undefined
           | Some num_layers \<Rightarrow>
               weights_loop (mode (caffe w)) (layer_names n) 0 (layers n) [] 0
                 (mxCreateStructArray [num_layers, 1] [''weights'', ''layer_names''])))"

section \<open>The command handlers\<close>

text \<open>A handler gets \<open>nlhs\<close> and the argument vector \<open>prhs\<close> (\<open>nrhs\<close> is its length)
  and returns what it stored in \<open>plhs[0]\<close>, if anything, with the new state.\<close>

type_synonym 'a result = "'a world failure + ('a mxArray option \<times> 'a world)"

type_synonym 'a handler = "'a engine \<Rightarrow> 'a world \<Rightarrow> int \<Rightarrow> 'a mxArray list \<Rightarrow> 'a result"

definition returned :: "'a world failure + ('a mxArray \<times> 'a world) \<Rightarrow> 'a result" where
  "returned r = (case r of Inl e \<Rightarrow> Inl e | Inr (v, w) \<Rightarrow> Inr (Some v, w))"

definition get_blobs :: "('a::zero) handler" where
  "get_blobs E w nlhs prhs = (case do_get_blobs w of Inl e \<Rightarrow> Inl e | Inr v \<Rightarrow> Inr (Some v, w))"

definition get_weights :: "('a::zero) handler" where
  "get_weights E w nlhs prhs = (case do_get_weights w of Inl e \<Rightarrow> Inl e | Inr v \<Rightarrow> Inr (Some v, w))"

definition set_mode_cpu :: "'a handler" where
  "set_mode_cpu E w nlhs prhs = Inr (None, w\<lparr>caffe := (caffe w)\<lparr>mode := CPU\<rparr>\<rparr>)"

definition set_mode_gpu :: "'a handler" where
  "set_mode_gpu E w nlhs prhs = Inr (None, w\<lparr>caffe := (caffe w)\<lparr>mode := GPU\<rparr>\<rparr>)"

definition set_phase_train :: "'a handler" where
  "set_phase_train E w nlhs prhs = Inr (None, w\<lparr>caffe := (caffe w)\<lparr>phase := TRAIN\<rparr>\<rparr>)"

definition set_phase_test :: "'a handler" where
  "set_phase_test E w nlhs prhs = Inr (None, w\<lparr>caffe := (caffe w)\<lparr>phase := TEST\<rparr>\<rparr>)"

definition set_device :: "'a handler" where
  "set_device E w nlhs prhs =
     (if length prhs \<noteq> 1 then Inl (MexErr ''Wrong number of arguments'' w)
      else
        (case mxGetScalar (prhs ! 0) of
           None \<Rightarrow> Inl Undefined
         | Some v \<Rightarrow> Inr (None, w\<lparr>caffe := (caffe w)\<lparr>device := int_of_double v\<rparr>\<rparr>)))"

definition get_init_key :: "'a handler" where
  "get_init_key E w nlhs prhs = Inr (Some (mxCreateDoubleScalar (of_int (init_key w))), w)"

definition init :: "'a handler" where
  "init E w nlhs prhs =
     (if length prhs \<noteq> 2 then Inl (MexErr ''Wrong number of arguments'' w)
      else
        (case (mxArrayToString (prhs ! 0), mxArrayToString (prhs ! 1)) of
           (Some param_file, Some model_file) \<Rightarrow>
             (case Net_new E (caffe w) param_file of
                None \<Rightarrow> Inl (Fatal ''Net'')
              | Some n0 \<Rightarrow>
                  (case CopyTrainedLayersFrom E (caffe w) n0 model_file of
                     None \<Rightarrow> Inl (Fatal ''CopyTrainedLayersFrom'')
                   | Some n1 \<Rightarrow>
                       (let w1 = w\<lparr>net := Some n1, init_key := random E (rand_calls w),
                                   rand_calls := Suc (rand_calls w)\<rparr>
                        in Inr (if nlhs = 1 then Some (mxCreateDoubleScalar (of_int (init_key w1)))
                                else None, w1))))
         | _ \<Rightarrow> Inl Undefined))"

definition reset :: "'a handler" where
  "reset E w nlhs prhs =
     (if net w \<noteq> None then Inr (None, w\<lparr>net := None, init_key := - 2\<rparr>) else Inr (None, w))"

definition forward :: "('a::zero) handler" where
  "forward E w nlhs prhs =
     (if length prhs \<noteq> 1 then Inl (MexErr ''Wrong number of arguments'' w)
      else returned (do_forward E w (prhs ! 0)))"

definition backward :: "('a::zero) handler" where
  "backward E w nlhs prhs =
     (if length prhs \<noteq> 1 then Inl (MexErr ''Wrong number of arguments'' w)
      else returned (do_backward E w (prhs ! 0)))"

definition get_gradients :: "('a::zero) handler" where
  "get_gradients E w nlhs prhs =
     (if length prhs \<noteq> 3 then Inl (MexErr ''Wrong number of arguments'' w)
      else returned (do_get_gradients E w (prhs ! 0) (prhs ! 1) (prhs ! 2)))"

definition get_features :: "('a::zero) handler" where
  "get_features E w nlhs prhs =
     (if length prhs \<noteq> 2 then Inl (MexErr ''Wrong number of arguments'' w)
      else returned (do_get_features E w (prhs ! 0) (prhs ! 1)))"

definition is_initialized :: "'a handler" where
  "is_initialized E w nlhs prhs =
     (if net w = None then Inr (Some (mxCreateDoubleScalar 0), w)
      else Inr (Some (mxCreateDoubleScalar 1), w))"

text \<open>\<open>read_mean\<close> copies from the CPU pointer whatever the mode is. (Its warning
  text goes to the host's console and is not part of the result.)\<close>

definition read_mean :: "('a::zero) handler" where
  "read_mean E w nlhs prhs =
     (if length prhs \<noteq> 1
      then Inl (MexErr (''Usage: caffe('read_mean', 'path_to_binary_mean_file'' @ [CHR 0x27]) w)
      else
        (case mxArrayToString (prhs ! 0) of
           None \<Rightarrow> Inl Undefined
         | Some mean_file \<Rightarrow>
             (case ReadProtoFromBinaryFile E mean_file of
                None \<Rightarrow> Inl (MexErr ''Couldn't read the file'' w)
              | Some data_mean \<Rightarrow>
                  (let dims = [width data_mean, height data_mean, channels data_mean, num data_mean] in
                   case caffe_copy (count data_mean) (cpu_data data_mean) (replicate (prod_list dims) 0) of
                     None \<Rightarrow> Inl Undefined
                   | Some xs \<Rightarrow> Inr (Some (MxSingle dims xs), w)))))"

section \<open>Available commands and the entry point\<close>

record 'a handler_registry =
  cmd :: string
  func :: "'a handler option"

definition handlers :: "('a::zero) handler_registry list" where
  "handlers =
    [\<lparr>cmd = ''forward'', func = Some forward\<rparr>,
     \<lparr>cmd = ''backward'', func = Some backward\<rparr>,
     \<lparr>cmd = ''get_gradients'', func = Some get_gradients\<rparr>,
     \<lparr>cmd = ''get_features'', func = Some get_features\<rparr>,
     \<lparr>cmd = ''init'', func = Some init\<rparr>,
     \<lparr>cmd = ''is_initialized'', func = Some is_initialized\<rparr>,
     \<lparr>cmd = ''set_mode_cpu'', func = Some set_mode_cpu\<rparr>,
     \<lparr>cmd = ''set_mode_gpu'', func = Some set_mode_gpu\<rparr>,
     \<lparr>cmd = ''set_phase_train'', func = Some set_phase_train\<rparr>,
     \<lparr>cmd = ''set_phase_test'', func = Some set_phase_test\<rparr>,
     \<lparr>cmd = ''set_device'', func = Some set_device\<rparr>,
     \<lparr>cmd = ''get_weights'', func = Some get_weights\<rparr>,
     \<lparr>cmd = ''get_blobs'', func = Some get_blobs\<rparr>,
     \<lparr>cmd = ''get_init_key'', func = Some get_init_key\<rparr>,
     \<lparr>cmd = ''reset'', func = Some reset\<rparr>,
     \<lparr>cmd = ''read_mean'', func = Some read_mean\<rparr>,
     \<lparr>cmd = ''END'', func = None\<rparr>]"

text \<open>The dispatch loop \<open>for (i = 0; handlers[i].func != NULL; i++)\<close>: it stops at the
  first entry without a function, and leaves at the first entry whose name matches.
  \<open>None\<close> is a run behind the end of the table.\<close>

fun dispatch :: "'a handler_registry list \<Rightarrow> string \<Rightarrow> ('a handler option) option" where
  "dispatch [] c = None"
| "dispatch (h # hs) c =
     (case func h of
        None \<Rightarrow> Some None
      | Some f \<Rightarrow> if cmd h = c then Some (Some f) else dispatch hs c)"

definition mexFunction :: "('a::zero) engine \<Rightarrow> 'a world \<Rightarrow> int \<Rightarrow> 'a mxArray list \<Rightarrow> 'a result" where
  "mexFunction E w nlhs prhs =
     (if length prhs = 0 then Inl (MexErr ''An API command is requires'' w)
      else
        (case mxArrayToString (prhs ! 0) of
           None \<Rightarrow> Inl Undefined
         | Some c \<Rightarrow>
             (case dispatch handlers c of
                None \<Rightarrow> Inl Undefined
              | Some None \<Rightarrow> Inl (MexErr ''API command not recognized'' w)
              | Some (Some f) \<Rightarrow> f E w nlhs (tl prhs))))"

text \<open>The registered commands: the entries the dispatch loop can reach, that is,
  those in front of the first entry without a function.\<close>

definition registered :: "'a handler_registry list \<Rightarrow> 'a handler_registry list" where
  "registered hs = takeWhile (\<lambda>h. func h \<noteq> None) hs"

section \<open>Notions used to state the properties\<close>

text \<open>The four messages of the size checks of \<open>do_get_gradients\<close> and
  \<open>do_get_features\<close>.\<close>

definition dimension_messages :: "string list" where
  "dimension_messages =
     [''The height of the input images is wrong!'', ''The width of the input images is wrong!'',
      ''The channel size of the input images is wrong!'', ''The batch size of the input images is wrong!'']"

text \<open>A cell whose size along dimension 1, 2, 3 or 4 differs from the blob's width,
  height, channels or num.\<close>

definition cell_mismatch :: "'a mxArray \<Rightarrow> 'a Blob \<Rightarrow> bool" where
  "cell_mismatch elem b \<longleftrightarrow>
     dim_at elem 0 \<noteq> Some (width b) \<or> dim_at elem 1 \<noteq> Some (height b)
     \<or> dim_at elem 2 \<noteq> Some (channels b) \<or> dim_at elem 3 \<noteq> Some (num b)"

text \<open>The message for a mismatching cell: the first comparison that fails, in the order
  of the dimensions.\<close>

definition first_wrong :: "'a mxArray \<Rightarrow> 'a Blob \<Rightarrow> string" where
  "first_wrong elem b =
     (if dim_at elem 0 \<noteq> Some (width b) then ''The height of the input images is wrong!''
      else if dim_at elem 1 \<noteq> Some (height b) then ''The width of the input images is wrong!''
      else if dim_at elem 2 \<noteq> Some (channels b) then ''The channel size of the input images is wrong!''
      else ''The batch size of the input images is wrong!'')"

text \<open>The float buffer of cell \<open>i\<close> of a cell array.\<close>

definition cell_buffer :: "'a mxArray \<Rightarrow> nat \<Rightarrow> 'a list" where
  "cell_buffer bottom i =
     (case mxGetCell bottom i of Some (MxSingle ds xs) \<Rightarrow> xs | _ \<Rightarrow> [])"

text \<open>What the engine guarantees of a blob: \<open>count\<close> is the product of the extents
  and both buffers hold \<open>count\<close> elements.\<close>

definition wf_blob :: "'a Blob \<Rightarrow> bool" where
  "wf_blob b \<longleftrightarrow>
     count b = width b * height b * channels b * num b
     \<and> length (data b) = count b \<and> length (diff b) = count b"

text \<open>The part of a blob that copying into its buffers does not change.\<close>

definition blob_shape :: "'a Blob \<Rightarrow> nat list" where
  "blob_shape b = [num b, channels b, height b, width b, count b, length (data b), length (diff b)]"

text \<open>Cell \<open>i\<close> can be copied into the blob at pointer \<open>p\<close>: it is a single-precision
  array with at least four dimensions whose buffer has the blob's \<open>count\<close> elements,
  and \<open>p\<close> points to a well-formed blob of the net.\<close>

definition input_ready :: "'a Net \<Rightarrow> 'a mxArray \<Rightarrow> nat \<Rightarrow> nat \<Rightarrow> bool" where
  "input_ready n bottom i p \<longleftrightarrow>
     p < length (blobs n) \<and> wf_blob (blobs n ! p)
     \<and> (case mxGetCell bottom i of
           Some (MxSingle ds xs) \<Rightarrow> 4 \<le> length ds \<and> length xs = count (blobs n ! p)
         | _ \<Rightarrow> False)"

text \<open>The net after the buffers of the cells \<open>i, i + 1, \<dots>\<close> have been stored, as they
  are, as the data (or the diff) of the blobs at the pointers \<open>ps\<close>, in this order.\<close>

fun inputs_stored :: "'a mxArray \<Rightarrow> nat \<Rightarrow> nat list \<Rightarrow> 'a Net \<Rightarrow> 'a Net" where
  "inputs_stored bottom i [] n = n"
| "inputs_stored bottom i (p # ps) n =
     inputs_stored bottom (Suc i) ps (blob_put n p ((blobs n ! p)\<lparr>data := cell_buffer bottom i\<rparr>))"

fun diffs_stored :: "'a mxArray \<Rightarrow> nat \<Rightarrow> nat list \<Rightarrow> 'a Net \<Rightarrow> 'a Net" where
  "diffs_stored top_diff i [] n = n"
| "diffs_stored top_diff i (p # ps) n =
     diffs_stored top_diff (Suc i) ps (blob_put n p ((blobs n ! p)\<lparr>diff := cell_buffer top_diff i\<rparr>))"

text \<open>The host array that shows a blob buffer: the buffer as it is, under the
  dimension vector \<open>[width, height, channels, num]\<close>.\<close>

definition blob_array :: "('a Blob \<Rightarrow> 'a list) \<Rightarrow> 'a Blob \<Rightarrow> 'a mxArray" where
  "blob_array src b = MxSingle [width b, height b, channels b, num b] (src b)"

text \<open>The channel ids that \<open>do_get_gradients\<close> is given: the first
  \<open>dims[0] * dims[1]\<close> doubles of a double array.\<close>

definition supplied_ids :: "'a mxArray \<Rightarrow> rat list option" where
  "supplied_ids channel_ids =
     (case channel_ids of
        MxDouble (c0 # c1 # cs) buf \<Rightarrow> if c0 * c1 \<le> length buf then Some (take (c0 * c1) buf) else None
      | _ \<Rightarrow> None)"

section \<open>A small engine for concrete runs\<close>

text \<open>
  A net with one input blob and one output blob of extents
  \<open>num = 1, channels = 1, height = 2, width = 3\<close> and one layer \<open>conv1\<close> with a
  single weight blob. The engine's forward pass hands the input data through to the
  output blob, its backward pass hands the output diff back to the input blob, and
  its gradient computation returns one fresh blob per selected channel.
\<close>

definition blob_3x2 :: "int list \<Rightarrow> int list \<Rightarrow> int Blob" where
  "blob_3x2 xs ys = \<lparr>num = 1, channels = 1, height = 2, width = 3, count = 6, data = xs, diff = ys\<rparr>"

definition zeros6 :: "int list" where
  "zeros6 = [0, 0, 0, 0, 0, 0]"

definition example_net :: "int Net" where
  "example_net =
     \<lparr>blobs = [blob_3x2 zeros6 zeros6, blob_3x2 zeros6 zeros6],
      blob_names = [''data'', ''prob''],
      input_blobs = [0],
      output_blobs = [1],
      top_vecs = [[1]],
      layers = [\<lparr>layer_blobs = [blob_3x2 [1, 2, 3, 4, 5, 6] zeros6]\<rparr>],
      layer_names = [''conv1'']\<rparr>"

definition example_engine :: "int engine" where
  "example_engine =
     \<lparr>Net_new = (\<lambda>c param_file. Some example_net),
      CopyTrainedLayersFrom = (\<lambda>c n model_file. Some n),
      ForwardPrefilled = (\<lambda>c n. Some (blob_put n 1 ((blobs n ! 1)\<lparr>data := data (blobs n ! 0)\<rparr>))),
      Backward = (\<lambda>c n. Some (blob_put n 0 ((blobs n ! 0)\<lparr>diff := diff (blobs n ! 1)\<rparr>))),
      CalcGradientsPrefilled =
        (\<lambda>c n layer_name ids.
           if layer_name = ''conv1''
           then Some (n, 0, map (\<lambda>i. Some (blob_3x2 zeros6 (map (\<lambda>x. x + 10 * i) [1, 2, 3, 4, 5, 6]))) ids)
           else Some (n, 1, [])),
      GetFeaturesPrefilled =
        (\<lambda>c n layer_name.
           if layer_name = ''conv1'' then Some (n, 0, [Some (blobs n ! 0)]) else Some (n, 1, [])),
      ReadProtoFromBinaryFile = (\<lambda>mean_file. None),
      random = (\<lambda>i. 7 + 2 * int i)\<rparr>"

definition example_caffe :: Caffe where
  "example_caffe = \<lparr>mode = CPU, phase = TEST, device = 0\<rparr>"

definition example_world :: "int world" where
  "example_world =
     \<lparr>net = Some example_net, init_key = 7, caffe = example_caffe, rand_calls = 1, deleted = []\<rparr>"



definition same_name_net :: "int Net" where
  "same_name_net =
     example_net
       \<lparr>layers := [\<lparr>layer_blobs = [blob_3x2 [1, 2, 3, 4, 5, 6] zeros6]\<rparr>,
                   \<lparr>layer_blobs = [blob_3x2 [6, 5, 4, 3, 2, 1] zeros6]\<rparr>],
        layer_names := [''conv1'', ''conv1'']\<rparr>"

section \<open>Sequences of calls\<close>

text \<open>The state in which the host goes on after a call: the one returned, or the
  one reached when \<open>mexErrMsgTxt\<close> was called. There is none after a fatal check or
  undefined behaviour.\<close>

definition survivor :: "'a world failure + ('v \<times> 'a world) \<Rightarrow> 'a world option" where
  "survivor r =
     (case r of
        Inr (v, w) \<Rightarrow> Some w
      | Inl (MexErr msg w) \<Rightarrow> Some w
      | Inl (Fatal msg) \<Rightarrow> None
      | Inl Undefined \<Rightarrow> None)"

text \<open>What the host sees of a call: the value stored in \<open>plhs[0]\<close>, the error
  message, or the end of the process.\<close>

datatype 'a observation = Returns "'a mxArray option" | Raises string | Dies string | Unspecified

definition observe :: "'a result \<Rightarrow> 'a observation" where
  "observe r =
     (case r of
        Inr (v, w) \<Rightarrow> Returns v
      | Inl (MexErr msg w) \<Rightarrow> Raises msg
      | Inl (Fatal msg) \<Rightarrow> Dies msg
      | Inl Undefined \<Rightarrow> Unspecified)"

text \<open>A history variable for runs: the key generated by the last successful \<open>init\<close>
  since the last \<open>reset\<close>, if there was one. A successful \<open>init\<close> is a call of the
  command \<open>init\<close> that returns; the key it generates is the value \<open>random()\<close> gives
  it.\<close>

definition last_init :: "('a::zero) engine \<Rightarrow> 'a world \<Rightarrow> int \<Rightarrow> 'a mxArray list \<Rightarrow> int option \<Rightarrow> int option" where
  "last_init E w nlhs prhs g =
     (case mexFunction E w nlhs prhs of
        Inl e \<Rightarrow> g
      | Inr r \<Rightarrow>
          if mxArrayToString (hd prhs) = Some ''init'' then Some (random E (rand_calls w))
          else if mxArrayToString (hd prhs) = Some ''reset'' then None
          else g)"

fun run ::
  "('a::zero) engine \<Rightarrow> 'a world \<Rightarrow> int option \<Rightarrow> (int \<times> 'a mxArray list) list \<Rightarrow> ('a world \<times> int option) option"
where
  "run E w g [] = Some (w, g)"
| "run E w g ((nlhs, prhs) # calls) =
     (case survivor (mexFunction E w nlhs prhs) of
        None \<Rightarrow> None
      | Some w' \<Rightarrow> run E w' (last_init E w nlhs prhs g) calls)"

text \<open>A result with the \<open>init_key\<close> of its state overwritten.\<close>

definition set_key :: "int \<Rightarrow> 'a world failure + ('v \<times> 'a world) \<Rightarrow> 'a world failure + ('v \<times> 'a world)" where
  "set_key k r = map_sum (map_failure (init_key_update (\<lambda>x. k))) (map_prod id (init_key_update (\<lambda>x. k))) r"

definition forget_key :: "'a world failure + ('v \<times> 'a world) \<Rightarrow> 'a world failure + ('v \<times> 'a world)" where
  "forget_key r = set_key 0 r"

text \<open>A call that leaves the two statics as they were, as far as the claims look at
  them: the key, and whether the handle is set.\<close>

definition keeps_statics :: "'a world \<Rightarrow> 'a world \<Rightarrow> bool" where
  "keeps_statics w w' \<longleftrightarrow> init_key w' = init_key w \<and> (net w' = None) = (net w = None)"

text \<open>Concrete calls for runs of the small engine.\<close>

definition init_call :: "int \<times> int mxArray list" where
  "init_call = (1, [MxChar ''init'', MxChar ''net.prototxt'', MxChar ''net.model''])"

definition reset_call :: "int \<times> int mxArray list" where
  "reset_call = (0, [MxChar ''reset''])"

definition world_with_key :: "int \<Rightarrow> nat \<Rightarrow> int world" where
  "world_with_key k r =
     \<lparr>net = Some example_net, init_key = k, caffe = example_caffe, rand_calls = r, deleted = []\<rparr>"




text \<open>An image with width and height exchanged, and a net with two input blobs.\<close>

definition wrong_bottom :: "int mxArray" where
  "wrong_bottom = MxCell [1, 1] [Some (MxSingle [2, 3, 1, 1] [1, 2, 3, 4, 5, 6])]"

definition two_input_world :: "int world" where
  "two_input_world = example_world\<lparr>net := Some (example_net\<lparr>input_blobs := [0, 1]\<rparr>)\<rparr>"

section \<open>Where the error messages come from\<close>

lemma dispatch_handlers:
  "dispatch (handlers :: ('a::zero) handler_registry list) c =
     (if c = ''forward'' then Some (Some forward)
      else if c = ''backward'' then Some (Some backward)
      else if c = ''get_gradients'' then Some (Some get_gradients)
      else if c = ''get_features'' then Some (Some get_features)
      else if c = ''init'' then Some (Some init)
      else if c = ''is_initialized'' then Some (Some is_initialized)
      else if c = ''set_mode_cpu'' then Some (Some set_mode_cpu)
      else if c = ''set_mode_gpu'' then Some (Some set_mode_gpu)
      else if c = ''set_phase_train'' then Some (Some set_phase_train)
      else if c = ''set_phase_test'' then Some (Some set_phase_test)
      else if c = ''set_device'' then Some (Some set_device)
      else if c = ''get_weights'' then Some (Some get_weights)
      else if c = ''get_blobs'' then Some (Some get_blobs)
      else if c = ''get_init_key'' then Some (Some get_init_key)
      else if c = ''reset'' then Some (Some reset)
      else if c = ''read_mean'' then Some (Some read_mean)
      else Some None)"
  unfolding handlers_def
  by (simp only: dispatch.simps handler_registry.simps option.case eq_commute [of c])

lemma forward_inputs_no_mex: "forward_inputs m b i ps n \<noteq> Inl (MexErr msg s)"
  by (induction ps arbitrary: i n) (auto split: option.splits if_splits)

lemma blobs_to_cells_no_mex: "blobs_to_cells src i obs out \<noteq> Inl (MexErr msg s)"
  by (induction obs arbitrary: i out) (auto split: option.splits if_splits simp: Let_def)

lemma backward_diffs_no_mex: "backward_diffs m b i ps n \<noteq> Inl (MexErr msg s)"
  by (induction ps arbitrary: i n) (auto split: option.splits if_splits)

lemma channels_loop_mex:
  "channels_loop s sc is acc = Inl (MexErr msg s') \<Longrightarrow>
     msg = ''The channel ids must be greater than zero!'' \<and> s' = s"
  by (induction "is" arbitrary: acc) (auto split: option.splits if_splits)

lemma checked_inputs_mex:
  "checked_inputs m b i ps n = Inl (MexErr msg n') \<Longrightarrow>
     msg \<in> {''The height of the input images is wrong!'', ''The width of the input images is wrong!'',
            ''The channel size of the input images is wrong!'', ''The batch size of the input images is wrong!''}"
  by (induction ps arbitrary: i n) (auto split: option.splits if_splits)

lemma gradients_loop_no_mex: "gradients_loop m bs k i obs cl dc out \<noteq> Inl (MexErr msg s)"
  by (induction obs arbitrary: i cl dc out) (auto split: option.splits if_splits prod.splits simp: Let_def)

lemma blobs_loop_no_mex: "blobs_loop m bl names i idx mx \<noteq> Inl (MexErr msg s)"
  by (induction names arbitrary: i idx mx) (auto split: option.splits if_splits simp: Let_def)

lemma weights_loop_no_mex: "weights_loop m names i ls prev idx mx \<noteq> Inl (MexErr msg s)"
  by (induction ls arbitrary: i prev idx mx) (auto split: option.splits if_splits sum.splits simp: Let_def blobs_to_cells_no_mex)


lemma with_net_mex:
  "with_net w e = MexErr msg w' \<Longrightarrow> \<exists>n. e = MexErr msg n \<and> w' = w\<lparr>net := Some n\<rparr>"
  by (cases e) auto

lemma do_forward_no_mex: "do_forward E w b \<noteq> Inl (MexErr msg w')"
  unfolding do_forward_def
  by (auto split: option.splits if_splits sum.splits simp: forward_inputs_no_mex blobs_to_cells_no_mex)

lemma do_backward_no_mex: "do_backward E w b \<noteq> Inl (MexErr msg w')"
  unfolding do_backward_def
  by (auto split: option.splits if_splits sum.splits simp: backward_diffs_no_mex blobs_to_cells_no_mex)

lemma do_get_blobs_no_mex: "do_get_blobs w \<noteq> Inl (MexErr msg w')"
  unfolding do_get_blobs_def
  by (auto split: option.splits simp: blobs_loop_no_mex)

lemma do_get_weights_no_mex: "do_get_weights w \<noteq> Inl (MexErr msg w')"
  unfolding do_get_weights_def
  by (auto split: option.splits simp: weights_loop_no_mex)

lemma do_get_features_mex:
  assumes "do_get_features E w b l = Inl (MexErr msg w')"
  shows "msg \<in> {''Initialize caffe first by calling matcaffe_init.'',
     ''The input has to be a cell array usually containing a single height x width x channels x batch size image!'',
     ''The height of the input images is wrong!'', ''The width of the input images is wrong!'',
     ''The channel size of the input images is wrong!'', ''The batch size of the input images is wrong!'',
     ''Error while calculating. Probably a layer with that name does not exist.''}"
  using assms unfolding do_get_features_def
  by (auto split: option.splits if_splits sum.splits prod.splits
           simp: blobs_to_cells_no_mex dest!: with_net_mex checked_inputs_mex)

lemma do_get_gradients_mex:
  assumes "do_get_gradients E w b l c = Inl (MexErr msg w')"
  shows "msg \<in> {''Initialize caffe first by calling matcaffe_init.'',
     ''The channel ids must be greater than zero!'', ''Channel list must not be empty.'',
     ''The input has to be a cell array usually containing a single height x width x channels x batch size image!'',
     ''The height of the input images is wrong!'', ''The width of the input images is wrong!'',
     ''The channel size of the input images is wrong!'', ''The batch size of the input images is wrong!'',
     ''Error while calculating. Probably a layer with that name does not exist.''}"
  using assms unfolding do_get_gradients_def
  by (auto split: option.splits if_splits sum.splits prod.splits list.splits
           simp: gradients_loop_no_mex dest!: with_net_mex checked_inputs_mex channels_loop_mex)

lemma returned_mex: "returned r = Inl (MexErr msg w') \<Longrightarrow> r = Inl (MexErr msg w')"
  by (auto simp: returned_def split: sum.splits prod.splits)

lemma handler_not_unrecognized:
  fixes E :: "('a::zero) engine"
  assumes "dispatch handlers c = Some (Some f)"
  shows "f E w nlhs args \<noteq> Inl (MexErr ''API command not recognized'' w')"
proof -
  let ?m = "''API command not recognized''"
  have 1: "forward E w nlhs args \<noteq> Inl (MexErr ?m w')"
    by (auto simp: forward_def do_forward_no_mex dest!: returned_mex)
  have 2: "backward E w nlhs args \<noteq> Inl (MexErr ?m w')"
    by (auto simp: backward_def do_backward_no_mex dest!: returned_mex)
  have 3: "get_gradients E w nlhs args \<noteq> Inl (MexErr ?m w')"
    by (auto simp: get_gradients_def dest!: returned_mex do_get_gradients_mex)
  have 4: "get_features E w nlhs args \<noteq> Inl (MexErr ?m w')"
    by (auto simp: get_features_def dest!: returned_mex do_get_features_mex)
  have 5: "init E w nlhs args \<noteq> Inl (MexErr ?m w')"
    by (auto simp: init_def Let_def split: option.splits)
  have 6: "is_initialized E w nlhs args \<noteq> Inl (MexErr ?m w')"
    by (auto simp: is_initialized_def)
  have 7: "set_mode_cpu E w nlhs args \<noteq> Inl (MexErr ?m w')" "set_mode_gpu E w nlhs args \<noteq> Inl (MexErr ?m w')"
     "set_phase_train E w nlhs args \<noteq> Inl (MexErr ?m w')" "set_phase_test E w nlhs args \<noteq> Inl (MexErr ?m w')"
    by (auto simp: set_mode_cpu_def set_mode_gpu_def set_phase_train_def set_phase_test_def)
  have 8: "set_device E w nlhs args \<noteq> Inl (MexErr ?m w')"
    by (auto simp: set_device_def split: option.splits)
  have 9: "get_weights E w nlhs args \<noteq> Inl (MexErr ?m w')"
    by (auto simp: get_weights_def do_get_weights_no_mex split: sum.splits)
  have 10: "get_blobs E w nlhs args \<noteq> Inl (MexErr ?m w')"
    by (auto simp: get_blobs_def do_get_blobs_no_mex split: sum.splits)
  have 11: "get_init_key E w nlhs args \<noteq> Inl (MexErr ?m w')" "reset E w nlhs args \<noteq> Inl (MexErr ?m w')"
    by (auto simp: get_init_key_def reset_def)
  have 12: "read_mean E w nlhs args \<noteq> Inl (MexErr ?m w')"
    by (auto simp: read_mean_def Let_def split: option.splits)
  from assms show ?thesis
    unfolding dispatch_handlers
    using 1 2 3 4 5 6 7 8 9 10 11 12
    by (auto split: if_splits)
qed

lemma registered_names:
  "map cmd (registered (handlers :: ('a::zero) handler_registry list)) =
     [''forward'', ''backward'', ''get_gradients'', ''get_features'', ''init'', ''is_initialized'',
      ''set_mode_cpu'', ''set_mode_gpu'', ''set_phase_train'', ''set_phase_test'', ''set_device'',
      ''get_weights'', ''get_blobs'', ''get_init_key'', ''reset'', ''read_mean'']"
  by (simp add: handlers_def registered_def)

lemma dispatch_find:
  "dispatch hs c =
     (case find (\<lambda>h. cmd h = c) (registered hs) of
        Some h \<Rightarrow> Some (func h)
      | None \<Rightarrow> if length (registered hs) < length hs then Some None else None)"
  by (induction hs) (auto simp: registered_def split: option.splits)

lemma find_registered_func:
  "find (\<lambda>h. cmd h = c) (registered hs) = Some h \<Longrightarrow> func h \<noteq> None"
  by (auto simp: registered_def find_Some_iff dest!: nth_mem set_takeWhileD)

lemma handlers_sentinel:
  "length (registered (handlers :: ('a::zero) handler_registry list)) < length (handlers :: 'a handler_registry list)"
  by (simp add: handlers_def registered_def)

text \<open>
  \<^bold>\<open>C1.\<close> For every call \<open>caffe(cmd, args...)\<close> the entry point scans the registry in
  order and calls the first registered handler whose name equals \<open>cmd\<close>, with the
  remaining arguments; the registered names are pairwise distinct, so this handler is
  the only one of that name. The error \<open>API command not recognized\<close> is raised exactly
  when \<open>cmd\<close> is no registered name (the sentinel entry \<open>END\<close> has no function and is
  not registered). With no argument at all an error is raised and nothing is
  dispatched.
\<close>

theorem mexFunction_dispatch:
  fixes E :: "('a::zero) engine"
  shows "mexFunction E w nlhs [] = Inl (MexErr ''An API command is requires'' w)
    \<and> distinct (map cmd (registered (handlers :: 'a handler_registry list)))
    \<and> (\<forall>h f. find (\<lambda>h. cmd h = c) (registered handlers) = Some h \<and> func h = Some f \<longrightarrow>
          mexFunction E w nlhs (MxChar c # args) = f E w nlhs args)
    \<and> ((\<exists>w'. mexFunction E w nlhs (MxChar c # args) = Inl (MexErr ''API command not recognized'' w'))
          \<longleftrightarrow> c \<notin> set (map cmd (registered (handlers :: 'a handler_registry list))))
    \<and> (c \<notin> set (map cmd (registered (handlers :: 'a handler_registry list))) \<longrightarrow>
          mexFunction E w nlhs (MxChar c # args) = Inl (MexErr ''API command not recognized'' w))"
proof (intro conjI allI impI)
  let ?hs = "handlers :: 'a handler_registry list"
  show "mexFunction E w nlhs [] = Inl (MexErr ''An API command is requires'' w)"
    by (simp add: mexFunction_def)
  show "distinct (map cmd (registered ?hs))"
    unfolding registered_names by simp
  show "mexFunction E w nlhs (MxChar c # args) = f E w nlhs args"
    if "find (\<lambda>h. cmd h = c) (registered handlers) = Some h \<and> func h = Some f" for h f
    using that by (simp add: mexFunction_def dispatch_find)
  have none: "mexFunction E w nlhs (MxChar c # args) = Inl (MexErr ''API command not recognized'' w)"
    if "c \<notin> set (map cmd (registered ?hs))"
  proof -
    from that have "find (\<lambda>h. cmd h = c) (registered ?hs) = None"
      by (auto simp: find_None_iff)
    then show ?thesis
      by (simp add: mexFunction_def dispatch_find handlers_sentinel)
  qed
  then show "mexFunction E w nlhs (MxChar c # args) = Inl (MexErr ''API command not recognized'' w)"
    if "c \<notin> set (map cmd (registered ?hs))" using that .
  show "(\<exists>w'. mexFunction E w nlhs (MxChar c # args) = Inl (MexErr ''API command not recognized'' w'))
          \<longleftrightarrow> c \<notin> set (map cmd (registered ?hs))"
  proof
    assume ex: "\<exists>w'. mexFunction E w nlhs (MxChar c # args) = Inl (MexErr ''API command not recognized'' w')"
    show "c \<notin> set (map cmd (registered ?hs))"
    proof
      assume "c \<in> set (map cmd (registered ?hs))"
      then obtain h where h: "find (\<lambda>h. cmd h = c) (registered ?hs) = Some h"
        by (cases "find (\<lambda>h. cmd h = c) (registered ?hs)") (auto simp: find_None_iff)
      then obtain f where f: "func h = Some f"
        using find_registered_func by fastforce
      from h f have "dispatch ?hs c = Some (Some f)"
        by (simp add: dispatch_find)
      from handler_not_unrecognized [OF this] h f ex show False
        by (simp add: mexFunction_def dispatch_find)
    qed
  next
    assume "c \<notin> set (map cmd (registered ?hs))"
    from none [OF this] show "\<exists>w'. mexFunction E w nlhs (MxChar c # args) = Inl (MexErr ''API command not recognized'' w')"
      by blast
  qed
qed

theorem mexFunction_dispatch_witness:
  "find (\<lambda>h. cmd h = ''reset'') (registered (handlers :: int handler_registry list))
       = Some \<lparr>cmd = ''reset'', func = Some reset\<rparr>
   \<and> mexFunction example_engine example_world 0 [MxChar ''reset'']
       = reset example_engine example_world 0 []
   \<and> ''END'' \<notin> set (map cmd (registered (handlers :: int handler_registry list)))
   \<and> mexFunction example_engine example_world 0 [MxChar ''END'']
       = Inl (MexErr ''API command not recognized'' example_world)"
proof -
  have h: "find (\<lambda>h. cmd h = ''reset'') (registered (handlers :: int handler_registry list))
             = Some \<lparr>cmd = ''reset'', func = Some reset\<rparr>"
    by (simp add: handlers_def registered_def)
  have e: "''END'' \<notin> set (map cmd (registered (handlers :: int handler_registry list)))"
    unfolding registered_names by simp
  have 1: "mexFunction example_engine example_world 0 [MxChar ''reset''] = reset example_engine example_world 0 []"
    using mexFunction_dispatch [of example_engine example_world 0 "''reset''" "[]"] h by simp
  have 2: "mexFunction example_engine example_world 0 [MxChar ''END''] = Inl (MexErr ''API command not recognized'' example_world)"
    using mexFunction_dispatch [of example_engine example_world 0 "''END''" "[]"] e by blast
  from h e 1 2 show ?thesis by (intro conjI)
qed

section \<open>\<open>get_weights\<close> on layers that share a name\<close>

text \<open>
  \<^bold>\<open>C4.\<close> \<open>get_weights\<close> is to return one struct entry per run of weighted layers of
  the same name, each with the cell array of the layer's weight blobs and the name.
  Step 1 of \<open>do_get_weights\<close> sizes the struct array that way. On a net whose two
  layers are both called \<open>conv1\<close> and have one weight blob each, step 1 counts one
  entry, but step 3 reaches the second layer with \<open>mx_layer_cells\<close> still \<open>NULL\<close> and
  passes it to \<open>mxSetCell\<close>: no struct array is returned.
\<close>

theorem do_get_weights_same_name:
  "count_layers (layer_names same_name_net) 0 (layers same_name_net) [] 0 = Some 1
   \<and> do_get_weights (example_world\<lparr>net := Some same_name_net\<rparr>) = Inl Undefined"
  by (simp add: do_get_weights_def same_name_net_def example_net_def example_world_def
      example_caffe_def blob_3x2_def zeros6_def mode_data_def cpu_data_def caffe_copy_def
      mxCreateCellArray_def mxCreateNumericArray_def mxCreateStructArray_def mxCreateString_def)

section \<open>What a call does to the state\<close>

lemma do_forward_world:
  "do_forward E w b = Inr (v, w') \<Longrightarrow> net w \<noteq> None \<and> (\<exists>n'. w' = w\<lparr>net := Some n'\<rparr>)"
  unfolding do_forward_def by (auto split: option.splits if_splits sum.splits)

lemma do_backward_world:
  "do_backward E w b = Inr (v, w') \<Longrightarrow> net w \<noteq> None \<and> (\<exists>n'. w' = w\<lparr>net := Some n'\<rparr>)"
  unfolding do_backward_def by (auto split: option.splits if_splits sum.splits)

lemma do_get_features_world:
  "do_get_features E w b l = Inr (v, w') \<Longrightarrow> net w \<noteq> None \<and> (\<exists>n'. w' = w\<lparr>net := Some n'\<rparr>)"
  unfolding do_get_features_def by (auto split: option.splits if_splits sum.splits prod.splits)

lemma do_get_features_mex_world:
  "do_get_features E w b l = Inl (MexErr msg w') \<Longrightarrow> w' = w \<or> (net w \<noteq> None \<and> (\<exists>n'. w' = w\<lparr>net := Some n'\<rparr>))"
  unfolding do_get_features_def
  by (auto split: option.splits if_splits sum.splits prod.splits simp: blobs_to_cells_no_mex dest!: with_net_mex)

lemma do_get_gradients_world:
  "do_get_gradients E w b l c = Inr (v, w') \<Longrightarrow>
     net w \<noteq> None \<and> (\<exists>n' gbs. w' = w\<lparr>net := Some n', deleted := deleted w @ gbs\<rparr>)"
  unfolding do_get_gradients_def
  by (auto split: option.splits if_splits sum.splits prod.splits list.splits)

lemma do_get_gradients_mex_world:
  "do_get_gradients E w b l c = Inl (MexErr msg w') \<Longrightarrow> w' = w \<or> (net w \<noteq> None \<and> (\<exists>n'. w' = w\<lparr>net := Some n'\<rparr>))"
  unfolding do_get_gradients_def
  by (auto split: option.splits if_splits sum.splits prod.splits list.splits
      simp: gradients_loop_no_mex dest!: with_net_mex channels_loop_mex)


lemma survivor_returned:
  "survivor (returned r) = survivor r"
  by (auto simp: survivor_def returned_def split: sum.splits prod.splits failure.splits)

lemma survivor_Some:
  "survivor r = Some w' \<Longrightarrow> (\<exists>v. r = Inr (v, w')) \<or> (\<exists>msg. r = Inl (MexErr msg w'))"
  by (auto simp: survivor_def split: sum.splits prod.splits failure.splits)

lemma forward_frame:
  "survivor (forward E w nlhs args) = Some w' \<Longrightarrow> keeps_statics w w' \<and> deleted w' = deleted w"
  by (auto simp: forward_def survivor_returned keeps_statics_def split: if_splits
      dest!: survivor_Some do_forward_world simp: do_forward_no_mex)

lemma backward_frame:
  "survivor (backward E w nlhs args) = Some w' \<Longrightarrow> keeps_statics w w' \<and> deleted w' = deleted w"
  by (auto simp: backward_def survivor_returned keeps_statics_def split: if_splits
      dest!: survivor_Some do_backward_world simp: do_backward_no_mex)

lemma get_features_frame:
  "survivor (get_features E w nlhs args) = Some w' \<Longrightarrow> keeps_statics w w' \<and> deleted w' = deleted w"
  by (auto simp: get_features_def survivor_returned keeps_statics_def split: if_splits
      dest!: survivor_Some do_get_features_world do_get_features_mex_world)

lemma get_gradients_frame:
  "survivor (get_gradients E w nlhs args) = Some w' \<Longrightarrow> keeps_statics w w'"
  by (auto simp: get_gradients_def survivor_returned keeps_statics_def split: if_splits
      dest!: survivor_Some do_get_gradients_world do_get_gradients_mex_world)

lemma simple_frames:
  "survivor (is_initialized E w nlhs args) = Some w' \<Longrightarrow> keeps_statics w w' \<and> deleted w' = deleted w"
  "survivor (set_mode_cpu E w nlhs args) = Some w' \<Longrightarrow> keeps_statics w w' \<and> deleted w' = deleted w"
  "survivor (set_mode_gpu E w nlhs args) = Some w' \<Longrightarrow> keeps_statics w w' \<and> deleted w' = deleted w"
  "survivor (set_phase_train E w nlhs args) = Some w' \<Longrightarrow> keeps_statics w w' \<and> deleted w' = deleted w"
  "survivor (set_phase_test E w nlhs args) = Some w' \<Longrightarrow> keeps_statics w w' \<and> deleted w' = deleted w"
  "survivor (set_device E w nlhs args) = Some w' \<Longrightarrow> keeps_statics w w' \<and> deleted w' = deleted w"
  "survivor (get_init_key E w nlhs args) = Some w' \<Longrightarrow> keeps_statics w w' \<and> deleted w' = deleted w"
  by (auto simp: survivor_def keeps_statics_def is_initialized_def set_mode_cpu_def set_mode_gpu_def
      set_phase_train_def set_phase_test_def set_device_def get_init_key_def split: if_splits option.splits)

lemma get_weights_frame:
  "survivor (get_weights E w nlhs args) = Some w' \<Longrightarrow> keeps_statics w w' \<and> deleted w' = deleted w"
  by (auto simp: survivor_def keeps_statics_def get_weights_def do_get_weights_no_mex
      split: sum.splits failure.splits)

lemma get_blobs_frame:
  "survivor (get_blobs E w nlhs args) = Some w' \<Longrightarrow> keeps_statics w w' \<and> deleted w' = deleted w"
  by (auto simp: survivor_def keeps_statics_def get_blobs_def do_get_blobs_no_mex
      split: sum.splits failure.splits)

lemma read_mean_frame:
  "survivor (read_mean E w nlhs args) = Some w' \<Longrightarrow> keeps_statics w w' \<and> deleted w' = deleted w"
  by (auto simp: survivor_def keeps_statics_def read_mean_def Let_def
      split: if_splits option.splits)

lemma init_frame:
  "survivor (init E w nlhs args) = Some w' \<Longrightarrow>
     deleted w' = deleted w \<and>
     ((\<exists>msg. init E w nlhs args = Inl (MexErr msg w) \<and> w' = w) \<or>
      (\<exists>v. init E w nlhs args = Inr (v, w') \<and> net w' \<noteq> None \<and> init_key w' = random E (rand_calls w)))"
  by (auto simp: survivor_def init_def Let_def split: if_splits option.splits)

lemma reset_frame:
  "survivor (reset E w nlhs args) = Some w' \<Longrightarrow>
     deleted w' = deleted w \<and> (\<exists>v. reset E w nlhs args = Inr (v, w')) \<and> net w' = None
     \<and> init_key w' = (if net w = None then init_key w else - 2)"
  by (auto simp: survivor_def reset_def split: if_splits)


lemma dispatch_other_frame:
  fixes E :: "('a::zero) engine"
  assumes "c \<noteq> ''init''" "c \<noteq> ''reset''" "c \<noteq> ''get_gradients''"
    and "dispatch handlers c = Some (Some f)"
    and "survivor (f E w nlhs args) = Some w'"
  shows "keeps_statics w w' \<and> deleted w' = deleted w"
  using assms unfolding dispatch_handlers
  by (auto split: if_splits
      dest!: forward_frame backward_frame get_features_frame get_weights_frame get_blobs_frame
        read_mean_frame simple_frames)

lemma dispatch_special:
  "dispatch (handlers :: ('a::zero) handler_registry list) ''init'' = Some (Some init)"
  "dispatch (handlers :: ('a::zero) handler_registry list) ''reset'' = Some (Some reset)"
  "dispatch (handlers :: ('a::zero) handler_registry list) ''get_gradients'' = Some (Some get_gradients)"
  "dispatch (handlers :: ('a::zero) handler_registry list) c \<noteq> None"
  unfolding dispatch_handlers by simp_all

lemma mexFunction_survivor_cases:
  fixes E :: "('a::zero) engine"
  assumes "survivor (mexFunction E w nlhs prhs) = Some w'"
  obtains
    (unchanged) msg where "mexFunction E w nlhs prhs = Inl (MexErr msg w)" "w' = w"
      "\<forall>args. prhs \<noteq> MxChar ''init'' # args \<and> prhs \<noteq> MxChar ''reset'' # args"
  | (init) args where "prhs = MxChar ''init'' # args" "mexFunction E w nlhs prhs = init E w nlhs args"
  | (reset) args where "prhs = MxChar ''reset'' # args" "mexFunction E w nlhs prhs = reset E w nlhs args"
  | (get_gradients) args where "prhs = MxChar ''get_gradients'' # args"
      "mexFunction E w nlhs prhs = get_gradients E w nlhs args" "keeps_statics w w'"
  | (other) c args where "prhs = MxChar c # args" "c \<noteq> ''init''" "c \<noteq> ''reset''" "c \<noteq> ''get_gradients''"
      "keeps_statics w w'" "deleted w' = deleted w"
proof (cases prhs)
  case Nil
  then have r: "mexFunction E w nlhs prhs = Inl (MexErr ''An API command is requires'' w)"
    by (simp add: mexFunction_def)
  with assms have "w' = w" by (simp add: survivor_def)
  with r Nil show ?thesis by (intro unchanged) simp_all
next
  case (Cons a args)
  show ?thesis
  proof (cases "mxArrayToString a")
    case None
    with Cons have "mexFunction E w nlhs prhs = Inl Undefined" by (simp add: mexFunction_def)
    with assms show ?thesis by (simp add: survivor_def)
  next
    case (Some c)
    then have a: "a = MxChar c" by (cases a) auto
    have m: "mexFunction E w nlhs prhs =
       (case dispatch handlers c of None \<Rightarrow> Inl Undefined
        | Some None \<Rightarrow> Inl (MexErr ''API command not recognized'' w)
        | Some (Some f) \<Rightarrow> f E w nlhs args)"
      using Cons a by (simp add: mexFunction_def split: option.splits)
    show ?thesis
    proof (cases "c = ''init''")
      case True
      then have "mexFunction E w nlhs prhs = init E w nlhs args"
        unfolding m by (simp add: dispatch_special)
      with True Cons a show ?thesis by (intro init) simp_all
    next
      case ni: False
      show ?thesis
      proof (cases "c = ''reset''")
        case True
        then have "mexFunction E w nlhs prhs = reset E w nlhs args"
          unfolding m by (simp add: dispatch_special)
        with True Cons a show ?thesis by (intro reset) simp_all
      next
        case nr: False
        have "dispatch (handlers :: 'a handler_registry list) c \<noteq> None"
          by (rule dispatch_special(4))
        then obtain r where d: "dispatch (handlers :: 'a handler_registry list) c = Some r"
          by blast
        show ?thesis
        proof (cases r)
          case None
          with d have r: "mexFunction E w nlhs prhs = Inl (MexErr ''API command not recognized'' w)"
            unfolding m by simp
          with assms have w: "w' = w" by (simp add: survivor_def)
          from ni nr Cons a have "\<forall>args. prhs \<noteq> MxChar ''init'' # args \<and> prhs \<noteq> MxChar ''reset'' # args"
            by simp
          with r w show ?thesis by (intro unchanged)
        next
          case (Some f)
          with d have mf: "mexFunction E w nlhs prhs = f E w nlhs args"
            unfolding m by simp
          show ?thesis
          proof (cases "c = ''get_gradients''")
            case True
            with d Some have "f = get_gradients" by (simp add: dispatch_special)
            with mf have g: "mexFunction E w nlhs prhs = get_gradients E w nlhs args" by simp
            with assms have "keeps_statics w w'" by (simp add: get_gradients_frame)
            with g True Cons a show ?thesis by (intro get_gradients) simp_all
          next
            case False
            from dispatch_other_frame [OF ni nr False, of f E w nlhs args w'] d Some mf assms
            have "keeps_statics w w' \<and> deleted w' = deleted w" by simp
            with ni nr False Cons a show ?thesis by (intro other [of c args]) simp_all
          qed
        qed
      qed
    qed
  qed
qed

section \<open>The handle and the key along a run\<close>

lemma last_init_other:
  "mxArrayToString (hd prhs) \<noteq> Some ''init'' \<Longrightarrow> mxArrayToString (hd prhs) \<noteq> Some ''reset'' \<Longrightarrow>
     last_init E w nlhs prhs g = g"
  by (simp add: last_init_def split: sum.splits)

lemma last_init_failed:
  "mexFunction E w nlhs prhs = Inl e \<Longrightarrow> last_init E w nlhs prhs g = g"
  by (simp add: last_init_def)

lemma last_init_step:
  fixes E :: "('a::zero) engine"
  assumes s: "survivor (mexFunction E w nlhs prhs) = Some w'"
    and inv: "(net w \<noteq> None) = (g \<noteq> None)" "init_key w = (case g of None \<Rightarrow> - 2 | Some k \<Rightarrow> k)"
  shows "(net w' \<noteq> None) = (last_init E w nlhs prhs g \<noteq> None)
       \<and> init_key w' = (case last_init E w nlhs prhs g of None \<Rightarrow> - 2 | Some k \<Rightarrow> k)"
  using s
proof (cases rule: mexFunction_survivor_cases)
  case (unchanged msg)
  with inv show ?thesis by (simp add: last_init_failed)
next
  case (init args)
  from s init(2) have "survivor (init E w nlhs args) = Some w'" by simp
  from init_frame [OF this] show ?thesis
  proof (elim conjE disjE exE)
    fix msg assume "init E w nlhs args = Inl (MexErr msg w)" "w' = w"
    with init inv show ?thesis by (simp add: last_init_failed)
  next
    fix v assume "init E w nlhs args = Inr (v, w')" "net w' \<noteq> None" "init_key w' = random E (rand_calls w)"
    with init show ?thesis by (simp add: last_init_def)
  qed
next
  case (reset args)
  from s reset(2) have "survivor (reset E w nlhs args) = Some w'" by simp
  from reset_frame [OF this] reset inv show ?thesis
    by (auto simp: last_init_def split: option.splits)
next
  case (get_gradients args)
  then have "last_init E w nlhs prhs g = g" by (simp add: last_init_other)
  with get_gradients(3) inv show ?thesis by (simp add: keeps_statics_def)
next
  case (other c args)
  then have "last_init E w nlhs prhs g = g" by (simp add: last_init_other)
  with other(5) inv show ?thesis by (simp add: keeps_statics_def)
qed

lemma run_invariant:
  fixes E :: "('a::zero) engine"
  assumes "run E w g calls = Some (w', g')"
    and "(net w \<noteq> None) = (g \<noteq> None)" "init_key w = (case g of None \<Rightarrow> - 2 | Some k \<Rightarrow> k)"
  shows "(net w' \<noteq> None) = (g' \<noteq> None) \<and> init_key w' = (case g' of None \<Rightarrow> - 2 | Some k \<Rightarrow> k)"
  using assms
proof (induction calls arbitrary: w g)
  case Nil
  then show ?case by simp
next
  case (Cons call calls)
  obtain nlhs prhs where call: "call = (nlhs, prhs)" by (cases call)
  from Cons.prems(1) call obtain w1 where
    w1: "survivor (mexFunction E w nlhs prhs) = Some w1"
    and r: "run E w1 (last_init E w nlhs prhs g) calls = Some (w', g')"
    by (auto split: option.splits)
  from last_init_step [OF w1 Cons.prems(2,3)] Cons.IH [OF r] show ?case by blast
qed

text \<open>
  \<^bold>\<open>C8.\<close> In every state reached from the initial one by a sequence of calls, the
  network handle is set if and only if a successful \<open>init\<close> has occurred since the
  last \<open>reset\<close>; \<open>is_initialized\<close> returns 1 when the handle is set and 0 otherwise;
  \<open>get_init_key\<close> returns \<open>-2\<close> when the handle is not set (initially and after every
  \<open>reset\<close>) and otherwise the key generated by the last successful \<open>init\<close>.
\<close>

theorem handle_and_key_invariant:
  fixes E :: "('a::zero) engine"
  assumes "run E (initial_world c) None calls = Some (w, g)"
  shows "(net w \<noteq> None) = (g \<noteq> None)
    \<and> mexFunction E w nlhs (MxChar ''is_initialized'' # args)
         = Inr (Some (mxCreateDoubleScalar (if net w \<noteq> None then 1 else 0)), w)
    \<and> mexFunction E w nlhs (MxChar ''get_init_key'' # args)
         = Inr (Some (mxCreateDoubleScalar (case g of None \<Rightarrow> - 2 | Some k \<Rightarrow> of_int k)), w)"
proof -
  have i: "(net (initial_world c :: 'a world) \<noteq> None) = ((None :: int option) \<noteq> None)"
    "init_key (initial_world c :: 'a world) = (case (None :: int option) of None \<Rightarrow> - 2 | Some k \<Rightarrow> k)"
    by (simp_all add: initial_world_def)
  from run_invariant [OF assms i]
  have inv: "(net w \<noteq> None) = (g \<noteq> None)" "init_key w = (case g of None \<Rightarrow> - 2 | Some k \<Rightarrow> k)"
    by simp_all
  have 1: "mexFunction E w nlhs (MxChar ''is_initialized'' # args) = is_initialized E w nlhs args"
    by (simp add: mexFunction_def dispatch_handlers)
  have 2: "mexFunction E w nlhs (MxChar ''get_init_key'' # args) = get_init_key E w nlhs args"
    by (simp add: mexFunction_def dispatch_handlers)
  from inv show ?thesis
    unfolding 1 2 by (auto simp: is_initialized_def get_init_key_def split: option.splits)
qed

theorem handle_and_key_invariant_witness:
  "run example_engine (initial_world example_caffe) None [init_call, reset_call, init_call]
     = Some (world_with_key 9 2, Some 9)
   \<and> mexFunction example_engine (world_with_key 9 2) 1 [MxChar ''is_initialized'']
       = Inr (Some (mxCreateDoubleScalar 1), world_with_key 9 2)
   \<and> mexFunction example_engine (world_with_key 9 2) 1 [MxChar ''get_init_key'']
       = Inr (Some (mxCreateDoubleScalar 9), world_with_key 9 2)"
proof -
  have r: "run example_engine (initial_world example_caffe) None [init_call, reset_call, init_call]
     = Some (world_with_key 9 2, Some 9)"
    by (simp add: init_call_def reset_call_def mexFunction_def dispatch_handlers init_def reset_def
        survivor_def last_init_def initial_world_def example_engine_def Let_def world_with_key_def)
  have n: "net (world_with_key 9 2) \<noteq> None"
    by (simp add: world_with_key_def)
  from handle_and_key_invariant [OF r, of 1 "[]"] r n show ?thesis
    by simp
qed

section \<open>Blobs deleted by the wrapper\<close>











section \<open>The wrapper's own state\<close>

lemma no_mex_map: "(\<And>msg s. e \<noteq> MexErr msg s) \<Longrightarrow> map_failure f e = e"
  by (cases e) auto

lemma forward_inputs_map: "forward_inputs m b i ps n = Inl e \<Longrightarrow> map_failure f e = e"
  by (cases e) (auto simp: forward_inputs_no_mex)

lemma backward_diffs_map: "backward_diffs m b i ps n = Inl e \<Longrightarrow> map_failure f e = e"
  by (cases e) (auto simp: backward_diffs_no_mex)

lemma blobs_to_cells_map: "blobs_to_cells src i obs out = Inl e \<Longrightarrow> map_failure f e = e"
  by (cases e) (auto simp: blobs_to_cells_no_mex)

lemma gradients_loop_map: "gradients_loop m bs k i obs cl dc out = Inl e \<Longrightarrow> map_failure f e = e"
  by (cases e) (auto simp: gradients_loop_no_mex)

lemma blobs_loop_map: "blobs_loop m bl names i idx mx = Inl e \<Longrightarrow> map_failure f e = e"
  by (cases e) (auto simp: blobs_loop_no_mex)

lemma weights_loop_map: "weights_loop m names i ls prev idx mx = Inl e \<Longrightarrow> map_failure f e = e"
  by (cases e) (auto simp: weights_loop_no_mex)

lemma channels_loop_map:
  "channels_loop (f s) sc is acc = map_sum (map_failure f) id (channels_loop s sc is acc)"
  by (induction "is" arbitrary: acc) (auto split: option.splits)

lemma with_net_key:
  "with_net (w\<lparr>init_key := k\<rparr>) e = map_failure (init_key_update (\<lambda>x. k)) (with_net w e)"
  by (cases e) auto

lemma do_forward_key: "do_forward E (w\<lparr>init_key := k\<rparr>) b = set_key k (do_forward E w b)"
  unfolding do_forward_def set_key_def
  by (auto split: option.splits sum.splits simp: forward_inputs_map blobs_to_cells_map)


lemma do_backward_key: "do_backward E (w\<lparr>init_key := k\<rparr>) b = set_key k (do_backward E w b)"
  unfolding do_backward_def set_key_def
  by (auto split: option.splits sum.splits simp: backward_diffs_map blobs_to_cells_map)

lemma do_get_features_key:
  "do_get_features E (w\<lparr>init_key := k\<rparr>) b l = set_key k (do_get_features E w b l)"
  unfolding do_get_features_def set_key_def
  by (auto split: option.splits sum.splits prod.splits simp: with_net_key blobs_to_cells_map)

lemma map_sum_no_mex:
  "(\<And>e. r = Inl e \<Longrightarrow> map_failure f e = e) \<Longrightarrow> map_sum (map_failure f) id r = r"
  by (cases r) auto

lemma do_get_blobs_key:
  "do_get_blobs (w\<lparr>init_key := k\<rparr>) = map_sum (map_failure (init_key_update (\<lambda>x. k))) id (do_get_blobs w)"
  unfolding do_get_blobs_def
  by (cases "net w") (simp_all add: map_sum_no_mex blobs_loop_map)

lemma do_get_weights_key:
  "do_get_weights (w\<lparr>init_key := k\<rparr>) = map_sum (map_failure (init_key_update (\<lambda>x. k))) id (do_get_weights w)"
  unfolding do_get_weights_def
  by (cases "net w") (simp_all add: map_sum_no_mex weights_loop_map split: option.splits)


lemma channels_loop_key:
  "channels_loop (w\<lparr>init_key := k\<rparr>) sc is acc
     = map_sum (map_failure (init_key_update (\<lambda>x. k))) id (channels_loop w sc is acc)"
  by (rule channels_loop_map)

lemma do_get_gradients_key:
  "do_get_gradients E (w\<lparr>init_key := k\<rparr>) b l c = set_key k (do_get_gradients E w b l c)"
  unfolding do_get_gradients_def set_key_def
  by (auto split: option.splits sum.splits prod.splits list.splits
      simp: with_net_key channels_loop_key gradients_loop_map simp del: gradients_loop.simps)


lemma forget_set_key: "forget_key (set_key k r) = forget_key r"
  by (cases r) (auto simp: forget_key_def set_key_def failure.map_comp comp_def split: prod.splits)

lemma returned_set_key: "returned (set_key k r) = set_key k (returned r)"
  by (auto simp: returned_def set_key_def split: sum.splits prod.splits)

lemma observe_forget_key: "observe (forget_key r) = observe r"
  by (auto simp: observe_def forget_key_def set_key_def split: sum.splits prod.splits failure.splits)

lemma forget_key_MexErr:
  "forget_key (Inl (MexErr msg (w\<lparr>init_key := k\<rparr>))) = forget_key (Inl (MexErr msg w))"
  by (simp add: forget_key_def set_key_def)

lemma handlers_forget_key:
  fixes E :: "('a::zero) engine"
  shows "forget_key (forward E (w\<lparr>init_key := k\<rparr>) nlhs args) = forget_key (forward E w nlhs args)"
    and "forget_key (backward E (w\<lparr>init_key := k\<rparr>) nlhs args) = forget_key (backward E w nlhs args)"
    and "forget_key (get_gradients E (w\<lparr>init_key := k\<rparr>) nlhs args) = forget_key (get_gradients E w nlhs args)"
    and "forget_key (get_features E (w\<lparr>init_key := k\<rparr>) nlhs args) = forget_key (get_features E w nlhs args)"
  by (simp_all add: forward_def backward_def get_gradients_def get_features_def forget_key_MexErr
      do_forward_key do_backward_key do_get_gradients_key do_get_features_key returned_set_key forget_set_key)

lemma handlers_forget_key2:
  fixes E :: "('a::zero) engine"
  shows "forget_key (init E (w\<lparr>init_key := k\<rparr>) nlhs args) = forget_key (init E w nlhs args)"
    and "forget_key (is_initialized E (w\<lparr>init_key := k\<rparr>) nlhs args) = forget_key (is_initialized E w nlhs args)"
    and "forget_key (set_mode_cpu E (w\<lparr>init_key := k\<rparr>) nlhs args) = forget_key (set_mode_cpu E w nlhs args)"
    and "forget_key (set_mode_gpu E (w\<lparr>init_key := k\<rparr>) nlhs args) = forget_key (set_mode_gpu E w nlhs args)"
    and "forget_key (set_phase_train E (w\<lparr>init_key := k\<rparr>) nlhs args) = forget_key (set_phase_train E w nlhs args)"
    and "forget_key (set_phase_test E (w\<lparr>init_key := k\<rparr>) nlhs args) = forget_key (set_phase_test E w nlhs args)"
    and "forget_key (set_device E (w\<lparr>init_key := k\<rparr>) nlhs args) = forget_key (set_device E w nlhs args)"
    and "forget_key (reset E (w\<lparr>init_key := k\<rparr>) nlhs args) = forget_key (reset E w nlhs args)"
    and "forget_key (read_mean E (w\<lparr>init_key := k\<rparr>) nlhs args) = forget_key (read_mean E w nlhs args)"
  by (simp_all add: init_def is_initialized_def set_mode_cpu_def set_mode_gpu_def set_phase_train_def
      set_phase_test_def set_device_def reset_def read_mean_def forget_key_def set_key_def Let_def
      split: option.splits)

lemma handlers_forget_key3:
  fixes E :: "('a::zero) engine"
  shows "forget_key (get_weights E (w\<lparr>init_key := k\<rparr>) nlhs args) = forget_key (get_weights E w nlhs args)"
    and "forget_key (get_blobs E (w\<lparr>init_key := k\<rparr>) nlhs args) = forget_key (get_blobs E w nlhs args)"
  by (auto simp: get_weights_def get_blobs_def do_get_weights_key do_get_blobs_key forget_key_def
      set_key_def failure.map_comp comp_def split: sum.splits)

text \<open>
  \<^bold>\<open>C6, as stated:\<close> apart from the network instance, no command's result depends on
  state that the wrapper itself recorded in earlier calls. It fails on
  \<open>get_init_key\<close>: after one \<open>init\<close> and after two \<open>init\<close>s the network instance is
  the same, but the static \<open>init_key\<close> written by \<open>init\<close> differs, and \<open>get_init_key\<close>
  returns 7 in one state and 9 in the other.
\<close>

theorem get_init_key_reports_recorded_key:
  "run example_engine (initial_world example_caffe) None [init_call] = Some (world_with_key 7 1, Some 7)
   \<and> run example_engine (initial_world example_caffe) None [init_call, init_call]
       = Some (world_with_key 9 2, Some 9)
   \<and> net (world_with_key 7 1) = net (world_with_key 9 2)
   \<and> observe (mexFunction example_engine (world_with_key 7 1) 1 [MxChar ''get_init_key''])
       = Returns (Some (MxDouble [1, 1] [7]))
   \<and> observe (mexFunction example_engine (world_with_key 9 2) 1 [MxChar ''get_init_key''])
       = Returns (Some (MxDouble [1, 1] [9]))"
  by (simp add: init_call_def mexFunction_def dispatch_handlers init_def get_init_key_def
      survivor_def last_init_def initial_world_def example_engine_def Let_def world_with_key_def
      observe_def mxCreateDoubleScalar_def)

text \<open>
  \<^bold>\<open>C6, amended.\<close> Besides the network instance the wrapper keeps one more piece of
  state of its own, the integer \<open>init_key\<close> written by \<open>init\<close> and \<open>reset\<close>. Only
  \<open>get_init_key\<close> reads it: for every other command, what the host observes, and the
  state the call leaves apart from the key itself, are the same whatever the key was.
\<close>

theorem key_read_by_get_init_key_only:
  fixes E :: "('a::zero) engine"
  assumes "c \<noteq> ''get_init_key''"
  shows "forget_key (mexFunction E (w\<lparr>init_key := k\<rparr>) nlhs (MxChar c # args))
           = forget_key (mexFunction E w nlhs (MxChar c # args))
       \<and> observe (mexFunction E (w\<lparr>init_key := k\<rparr>) nlhs (MxChar c # args))
           = observe (mexFunction E w nlhs (MxChar c # args))"
proof -
  have "forget_key (mexFunction E (w\<lparr>init_key := k\<rparr>) nlhs (MxChar c # args))
           = forget_key (mexFunction E w nlhs (MxChar c # args))"
    using assms unfolding mexFunction_def dispatch_handlers
    by (simp add: handlers_forget_key handlers_forget_key2 handlers_forget_key3 forget_key_MexErr)
  then show ?thesis
    by (metis observe_forget_key)
qed

theorem key_read_by_get_init_key_only_witness:
  "''is_initialized'' \<noteq> ''get_init_key''
   \<and> observe (mexFunction example_engine (example_world\<lparr>init_key := 9\<rparr>) 1 [MxChar ''is_initialized''])
       = observe (mexFunction example_engine example_world 1 [MxChar ''is_initialized''])"
  using key_read_by_get_init_key_only [where c = "''is_initialized''" and E = example_engine
      and w = example_world and k = 9 and nlhs = 1 and args = "[]"]
  by simp

end
